theory Spec2Isabelle
  imports Complex_Main "HOL-Library.Word" "HOL-Library.Multiset" "HOL-Library.Sublist"
begin

unbundle bit_operations_syntax

section \<open>The deferred drawing pipeline of \<^verbatim>\<open>video/canvas.cpp\<close>\<close>

text \<open>
  The embedding follows \<^verbatim>\<open>src/video/canvas.cpp\<close>. A C++ \<^verbatim>\<open>float\<close> is a
  \<^typ>\<open>real\<close>. Where a float sum or product only becomes a stored value (a
  translated position, a corner of a rectangle, an alpha), the model stores the exact
  result, of which the code stores the rounding. Where a float sum decides a branch, in
  the clip test of \<^verbatim>\<open>draw_surface\<close>, the sum is rounded as binary32 arithmetic
  rounds it (\<open>float_add\<close> below). An \<^verbatim>\<open>int\<close> that is only stored
  and compared (the layer, a surface's width and height) is an \<^typ>\<open>int\<close>. Pointers
  that may be null (\<^verbatim>\<open>SurfacePtr\<close>, \<^verbatim>\<open>FontPtr\<close>, \<^verbatim>\<open>request_data\<close>) are options.
  Objects placed in the obstack are values of the model; the calls the code makes on
  its collaborators (painter, font, lightmap, destructors) are recorded as traces.
\<close>

subsection \<open>Binary32 arithmetic\<close>

text \<open>
  IEEE 754 binary32 as the reals it represents: a result is rounded to 24 significant
  bits, to nearest, ties to even, with gradual underflow below the exponent -126. Infinities
  and NaN are not values of the model: coordinates are finite and sums stay in range.
  \<open>float_of_int\<close> is \<^verbatim>\<open>static_cast<float>\<close> of an \<^verbatim>\<open>int\<close>, \<open>float_add\<close> the
  sum of two floats.
\<close>

definition pow2 :: "int \<Rightarrow> real" where
  "pow2 k = (if 0 \<le> k then 2 ^ nat k else 1 / 2 ^ nat (- k))"

definition binary32_exponent :: "real \<Rightarrow> int" where
  "binary32_exponent v = max (- 126) \<lfloor>log 2 \<bar>v\<bar>\<rfloor>"

definition round_half_even :: "real \<Rightarrow> int" where
  "round_half_even v =
     (if v - of_int \<lfloor>v\<rfloor> < 1 / 2 then \<lfloor>v\<rfloor>
      else if 1 / 2 < v - of_int \<lfloor>v\<rfloor> then \<lfloor>v\<rfloor> + 1
      else if even \<lfloor>v\<rfloor> then \<lfloor>v\<rfloor>
      else \<lfloor>v\<rfloor> + 1)"

definition to_float :: "real \<Rightarrow> real" where
  "to_float v =
     (if v = 0 then 0
      else of_int (round_half_even (v / pow2 (binary32_exponent v - 23)))
             * pow2 (binary32_exponent v - 23))"

definition float_of_int :: "int \<Rightarrow> real" where
  "float_of_int i = to_float (real_of_int i)"

definition float_add :: "real \<Rightarrow> real \<Rightarrow> real" where
  "float_add a b = to_float (a + b)"

subsection \<open>Geometry and colour\<close>

text \<open>
  Modelled from the spec: the headers \<^verbatim>\<open>math/vector.hpp\<close>, \<^verbatim>\<open>math/rectf.hpp\<close>,
  \<^verbatim>\<open>math/rect.hpp\<close>, \<^verbatim>\<open>math/size.hpp\<close>, \<^verbatim>\<open>math/sizef.hpp\<close> and \<^verbatim>\<open>video/color.hpp\<close> are
  not among the sources. The members below are the ones \<^verbatim>\<open>canvas.cpp\<close> uses: a vector
  has two coordinates and a componentwise sum; a rectangle is its two corners
  \<^verbatim>\<open>p1\<close> (top left) and \<^verbatim>\<open>p2\<close> (bottom right).
\<close>

datatype Vector = Vector (vx: real) (vy: real)

definition vector_plus :: "Vector \<Rightarrow> Vector \<Rightarrow> Vector" where
  "vector_plus a b = Vector (vx a + vx b) (vy a + vy b)"

datatype Size = Size (width: int) (height: int)

datatype Sizef = Sizef (widthf: real) (heightf: real)

definition Sizef_of_Size :: "Size \<Rightarrow> Sizef" where
  "Sizef_of_Size s = Sizef (real_of_int (width s)) (real_of_int (height s))"

record Rectf =
  p1 :: Vector
  p2 :: Vector

definition Rectf_coords :: "real \<Rightarrow> real \<Rightarrow> real \<Rightarrow> real \<Rightarrow> Rectf" where
  "Rectf_coords x1 y1 x2 y2 = \<lparr>p1 = Vector x1 y1, p2 = Vector x2 y2\<rparr>"

definition Rectf_pos_size :: "Vector \<Rightarrow> Sizef \<Rightarrow> Rectf" where
  "Rectf_pos_size p s = \<lparr>p1 = p, p2 = Vector (vx p + widthf s) (vy p + heightf s)\<rparr>"

definition get_left :: "Rectf \<Rightarrow> real" where
  "get_left r = vx (p1 r)"

definition get_top :: "Rectf \<Rightarrow> real" where
  "get_top r = vy (p1 r)"

definition get_right :: "Rectf \<Rightarrow> real" where
  "get_right r = vx (p2 r)"

definition get_bottom :: "Rectf \<Rightarrow> real" where
  "get_bottom r = vy (p2 r)"

definition Rectf_get_width :: "Rectf \<Rightarrow> real" where
  "Rectf_get_width r = vx (p2 r) - vx (p1 r)"

definition Rectf_get_height :: "Rectf \<Rightarrow> real" where
  "Rectf_get_height r = vy (p2 r) - vy (p1 r)"

definition get_size :: "Rectf \<Rightarrow> Sizef" where
  "get_size r = Sizef (Rectf_get_width r) (Rectf_get_height r)"

record Rect =
  left :: int
  top_rect :: int
  right :: int
  bottom_rect :: int

record Color =
  red :: real
  green :: real
  blue :: real
  alpha :: real

definition Color_rgb :: "real \<Rightarrow> real \<Rightarrow> real \<Rightarrow> Color" where
  "Color_rgb r g b = \<lparr>red = r, green = g, blue = b, alpha = 1\<rparr>"

subsection \<open>Surfaces, fonts, the drawing context\<close>

text \<open>
  Modelled from the spec: \<^verbatim>\<open>video/surface.hpp\<close>, \<^verbatim>\<open>video/font.hpp\<close>,
  \<^verbatim>\<open>video/drawing_context.hpp\<close> and \<^verbatim>\<open>video/blend.hpp\<close> are not among the sources.
  A surface exposes width, height, the horizontal-flip flag and a texture handle; the
  context exposes the current transform (an \<^verbatim>\<open>apply\<close> on positions, an effect and an
  alpha), the clip rectangle, the viewport and the target width. The transform's
  \<^verbatim>\<open>apply\<close> is a field of the model, so that every statement holds for whatever
  transform the context carries.
\<close>

type_synonym DrawingEffect = "32 word"

type_synonym Texture = nat

type_synonym Font = nat

record Surface =
  get_width :: int
  get_height :: int
  get_flipx :: bool
  get_texture :: Texture

datatype Blend = Blend (sfactor: nat) (dfactor: nat)

definition Blend_default :: Blend where
  "Blend_default = Blend 770 771"

datatype FontAlignment = ALIGN_LEFT | ALIGN_CENTER | ALIGN_RIGHT

datatype GradientDirection = VERTICAL | HORIZONTAL | VERTICAL_SECTOR | HORIZONTAL_SECTOR

record Transform =
  "apply" :: "Vector \<Rightarrow> Vector"
  drawing_effect :: DrawingEffect
  alpha :: real

record DrawingContext =
  transform :: Transform
  get_cliprect :: Rectf
  get_viewport :: Rect
  get_width :: int

subsection \<open>Drawing requests\<close>

text \<open>
  Modelled from the spec: \<^verbatim>\<open>video/drawing_request.hpp\<close> is not among the sources. The
  request carries a type tag, the common fields and a pointer to the payload; the
  payload classes derived from \<^verbatim>\<open>DrawingRequestData\<close> are the constructors of one
  datatype, with the fields the spec lists.
\<close>

datatype RequestType =
  TEXTURE | GRADIENT | TEXT | FILLRECT | INVERSEELLIPSE | LINE | TRIANGLE | GETLIGHT

datatype DrawingRequestData =
    TextureRequest (srcrect: Rectf) (dstrect: Rectf) (texture: Texture)
  | TextRequest (pos: Vector) (font: "Font option") (text_of: string) (alignment: FontAlignment)
  | GradientRequest (top_color: Color) (bottom_color: Color)
      (direction: GradientDirection) (region: Rectf)
  | FillRectRequest (pos: Vector) (size_of: Vector) (color: Color) (radius: real)
  | InverseEllipseRequest (pos: Vector) (size_of: Vector) (color: Color)
  | LineRequest (pos: Vector) (dest_pos: Vector) (color: Color)
  | TriangleRequest (pos1: Vector) (pos2: Vector) (pos3: Vector) (color: Color)

record DrawingRequest =
  type :: RequestType
  layer :: int
  drawing_effect :: DrawingEffect
  alpha :: real
  angle :: real
  color :: Color
  blend :: Blend
  request_data :: "DrawingRequestData option"

text \<open>
  The default-constructed request \<^verbatim>\<open>DrawingRequest()\<close>: every draw operation starts
  from it and overwrites the fields it sets.
\<close>

definition DrawingRequest_new :: DrawingRequest where
  "DrawingRequest_new =
     \<lparr>type = TEXTURE, layer = 0, drawing_effect = 0, alpha = 0, angle = 0,
      color = Color_rgb 1 1 1, blend = Blend_default, request_data = None\<rparr>"

subsection \<open>The canvas\<close>

datatype DrawingTarget = NORMAL | LIGHTMAP

datatype Filter = NO_FILTER | BELOW_LIGHTMAP | ABOVE_LIGHTMAP

datatype Error = AssertionFailed | NullPointerDereference | InvalidPayload

text \<open>
  \<^verbatim>\<open>m_context\<close> and \<^verbatim>\<open>m_obst\<close> are references to objects owned elsewhere: the context
  is an argument of each draw operation (its state at the time of the call), and the
  obstack only provides the storage of the values in \<^verbatim>\<open>m_requests\<close>.
\<close>

record Canvas =
  m_target :: DrawingTarget
  m_requests :: "DrawingRequest list"

definition Canvas_new :: "DrawingTarget \<Rightarrow> Canvas" where
  "Canvas_new target = \<lparr>m_target = target, m_requests = []\<rparr>"

definition push_back :: "Canvas \<Rightarrow> DrawingRequest \<Rightarrow> Canvas" where
  "push_back c request = c\<lparr>m_requests := m_requests c @ [request]\<rparr>"

text \<open>
  \<^verbatim>\<open>effect_from_surface\<close>; the constant \<^verbatim>\<open>HORIZONTAL_FLIP\<close> is declared outside the
  sources and is a parameter.
\<close>

definition effect_from_surface :: "DrawingEffect \<Rightarrow> Surface \<Rightarrow> DrawingEffect" where
  "effect_from_surface HORIZONTAL_FLIP surface =
     (if get_flipx surface then HORIZONTAL_FLIP else 0)"

text \<open>\<^verbatim>\<open>Canvas::apply_translate\<close>.\<close>

definition apply_translate :: "DrawingContext \<Rightarrow> Vector \<Rightarrow> Vector" where
  "apply_translate m_context p =
     vector_plus (apply (transform m_context) p)
       (Vector (real_of_int (left (get_viewport m_context)))
               (real_of_int (top_rect (get_viewport m_context))))"

subsection \<open>\<^verbatim>\<open>Canvas::clear\<close>\<close>

text \<open>
  The destructor calls are the observable effect of \<^verbatim>\<open>clear\<close>: for each request in
  buffer order, the payload's destructor when the pointer is not null, then the
  request's own.
\<close>

datatype DestructorCall =
    Destruct_DrawingRequestData DrawingRequestData
  | Destruct_DrawingRequest DrawingRequest

definition destruct :: "DrawingRequest \<Rightarrow> DestructorCall list" where
  "destruct request =
     (case request_data request of
        None \<Rightarrow> []
      | Some d \<Rightarrow> [Destruct_DrawingRequestData d]) @ [Destruct_DrawingRequest request]"

definition clear :: "Canvas \<Rightarrow> Canvas \<times> DestructorCall list" where
  "clear c = (c\<lparr>m_requests := []\<rparr>, concat (map destruct (m_requests c)))"

subsection \<open>\<^verbatim>\<open>Canvas::render\<close>\<close>

text \<open>
  \<^verbatim>\<open>std::stable_sort\<close> with a strict comparator \<^verbatim>\<open>cmp\<close>: an insertion sort that
  puts an element behind the elements that are not greater than it, which keeps the
  order of equivalent elements.
\<close>

fun stable_insert :: "('a \<Rightarrow> 'a \<Rightarrow> bool) \<Rightarrow> 'a \<Rightarrow> 'a list \<Rightarrow> 'a list" where
  "stable_insert cmp a [] = [a]"
| "stable_insert cmp a (b # bs) =
     (if cmp b a then b # stable_insert cmp a bs else a # b # bs)"

fun stable_sort :: "('a \<Rightarrow> 'a \<Rightarrow> bool) \<Rightarrow> 'a list \<Rightarrow> 'a list" where
  "stable_sort cmp [] = []"
| "stable_sort cmp (a # as) = stable_insert cmp a (stable_sort cmp as)"

definition layer_less :: "DrawingRequest \<Rightarrow> DrawingRequest \<Rightarrow> bool" where
  "layer_less r1 r2 \<longleftrightarrow> layer r1 < layer r2"

text \<open>
  The painters of the video system, and the calls \<^verbatim>\<open>render\<close> makes on the backend.
\<close>

datatype Painter = Lightmap_painter | Renderer_painter

definition select_painter :: "DrawingTarget \<Rightarrow> Painter" where
  "select_painter target = (if target = LIGHTMAP then Lightmap_painter else Renderer_painter)"

datatype BackendCall =
    Painter_draw_texture Painter DrawingRequest
  | Painter_draw_gradient Painter DrawingRequest
  | Font_draw Font Painter string Vector FontAlignment DrawingEffect Color real
  | Painter_draw_filled_rect Painter DrawingRequest
  | Painter_draw_inverse_ellipse Painter DrawingRequest
  | Painter_draw_line Painter DrawingRequest
  | Painter_draw_triangle Painter DrawingRequest
  | Lightmap_get_light DrawingRequest


text \<open>
  The \<^verbatim>\<open>switch\<close> over the request type. The text case casts the payload pointer and
  dereferences it and the font pointer; a null pointer there, or a payload of another
  class, has no defined behaviour and is an error of the model.
\<close>

definition dispatch_text :: "Painter \<Rightarrow> DrawingRequest \<Rightarrow> Error + BackendCall" where
  "dispatch_text painter request =
     (case request_data request of
        None \<Rightarrow> Inl NullPointerDereference
      | Some (TextRequest tpos tfont ttext talignment) \<Rightarrow>
          (case tfont of
             None \<Rightarrow> Inl NullPointerDereference
           | Some f \<Rightarrow>
               Inr (Font_draw f painter ttext tpos talignment
                      (drawing_effect request) (color request) (alpha request)))
      | Some _ \<Rightarrow> Inl InvalidPayload)"

definition dispatch :: "Painter \<Rightarrow> DrawingRequest \<Rightarrow> Error + BackendCall" where
  "dispatch painter request =
     (case type request of
        TEXTURE \<Rightarrow> Inr (Painter_draw_texture painter request)
      | GRADIENT \<Rightarrow> Inr (Painter_draw_gradient painter request)
      | TEXT \<Rightarrow> dispatch_text painter request
      | FILLRECT \<Rightarrow> Inr (Painter_draw_filled_rect painter request)
      | INVERSEELLIPSE \<Rightarrow> Inr (Painter_draw_inverse_ellipse painter request)
      | LINE \<Rightarrow> Inr (Painter_draw_line painter request)
      | TRIANGLE \<Rightarrow> Inr (Painter_draw_triangle painter request)
      | GETLIGHT \<Rightarrow> Inr (Lightmap_get_light request))"

text \<open>
  The dispatch loop over the sorted buffer. It returns the requests dispatched, each
  with the backend call made for it, and the error that stopped the loop, if any.
  \<^verbatim>\<open>LAYER_LIGHTMAP\<close> is declared outside the sources and is a parameter.
\<close>

fun render_loop ::
  "int \<Rightarrow> Filter \<Rightarrow> Painter \<Rightarrow> DrawingRequest list
     \<Rightarrow> (DrawingRequest \<times> BackendCall) list \<times> Error option" where
  "render_loop LAYER_LIGHTMAP flt painter [] = ([], None)"
| "render_loop LAYER_LIGHTMAP flt painter (request # rest) =
     (if flt = BELOW_LIGHTMAP \<and> layer request \<ge> LAYER_LIGHTMAP
        then render_loop LAYER_LIGHTMAP flt painter rest
      else if flt = ABOVE_LIGHTMAP \<and> layer request \<le> LAYER_LIGHTMAP
        then render_loop LAYER_LIGHTMAP flt painter rest
      else
        (case dispatch painter request of
           Inl e \<Rightarrow> ([], Some e)
         | Inr call \<Rightarrow>
             (case render_loop LAYER_LIGHTMAP flt painter rest of
                (calls, err) \<Rightarrow> ((request, call) # calls, err))))"

record RenderResult =
  canvas_after :: Canvas
  dispatched :: "(DrawingRequest \<times> BackendCall) list"
  failure :: "Error option"

definition render :: "int \<Rightarrow> Canvas \<Rightarrow> Filter \<Rightarrow> RenderResult" where
  "render LAYER_LIGHTMAP c flt =
     (let sorted_requests = stable_sort layer_less (m_requests c);
          painter = select_painter (m_target c);
          (calls, err) = render_loop LAYER_LIGHTMAP flt painter sorted_requests
      in \<lparr>canvas_after = c\<lparr>m_requests := sorted_requests\<rparr>,
          dispatched = calls, failure = err\<rparr>)"

text \<open>
  The filter test of the loop: a request survives when neither \<^verbatim>\<open>continue\<close> is taken.
\<close>

definition survives :: "int \<Rightarrow> Filter \<Rightarrow> DrawingRequest \<Rightarrow> bool" where
  "survives LAYER_LIGHTMAP flt request \<longleftrightarrow>
     \<not> (flt = BELOW_LIGHTMAP \<and> layer request \<ge> LAYER_LIGHTMAP) \<and>
     \<not> (flt = ABOVE_LIGHTMAP \<and> layer request \<le> LAYER_LIGHTMAP)"

subsection \<open>The draw operations\<close>

text \<open>
  Each operation takes the context as it is at the call and the canvas, and returns
  the canvas with the request appended. The two texture operations assert that the
  surface is not null; the others have no failing branch. \<^verbatim>\<open>draw_surface\<close> returns
  early, with the buffer as it was, when the clip test discards the surface (the
  request it has already allocated in the obstack is never enqueued).
\<close>

definition draw_surface ::
  "DrawingEffect \<Rightarrow> DrawingContext \<Rightarrow> Canvas \<Rightarrow> Surface option \<Rightarrow> Vector \<Rightarrow> real
     \<Rightarrow> Color \<Rightarrow> Blend \<Rightarrow> int \<Rightarrow> Error + Canvas" where
  "draw_surface HORIZONTAL_FLIP m_context c surface position angle_arg color_arg blend_arg
       layer_arg =
     (case surface of
        None \<Rightarrow> Inl AssertionFailed
      | Some s \<Rightarrow>
          (let cliprect = get_cliprect m_context in
           if vx position > get_right cliprect \<or>
              vy position > get_bottom cliprect \<or>
              float_add (vx position) (float_of_int (Surface.get_width s))
                < get_left cliprect \<or>
              float_add (vy position) (float_of_int (Surface.get_height s))
                < get_top cliprect
           then Inr c
           else
             (let request = DrawingRequest_new
                    \<lparr>type := TEXTURE, layer := layer_arg,
                     drawing_effect :=
                       Transform.drawing_effect (transform m_context)
                         XOR effect_from_surface HORIZONTAL_FLIP s,
                     alpha := Transform.alpha (transform m_context),
                     angle := angle_arg, color := color_arg, blend := blend_arg\<rparr>;
                  data = TextureRequest
                    (Rectf_coords 0 0 (real_of_int (Surface.get_width s))
                       (real_of_int (Surface.get_height s)))
                    (Rectf_pos_size (apply_translate m_context position)
                       (Sizef_of_Size (Size (Surface.get_width s) (Surface.get_height s))))
                    (get_texture s)
              in Inr (push_back c (request\<lparr>request_data := Some data\<rparr>)))))"

definition draw_surface_3 ::
  "DrawingEffect \<Rightarrow> DrawingContext \<Rightarrow> Canvas \<Rightarrow> Surface option \<Rightarrow> Vector \<Rightarrow> int
     \<Rightarrow> Error + Canvas" where
  "draw_surface_3 HORIZONTAL_FLIP m_context c surface position layer_arg =
     draw_surface HORIZONTAL_FLIP m_context c surface position 0 (Color_rgb 1 1 1)
       Blend_default layer_arg"

definition draw_surface_part ::
  "DrawingEffect \<Rightarrow> DrawingContext \<Rightarrow> Canvas \<Rightarrow> Surface option \<Rightarrow> Rectf \<Rightarrow> Rectf \<Rightarrow> int
     \<Rightarrow> Error + Canvas" where
  "draw_surface_part HORIZONTAL_FLIP m_context c surface srcrect_arg dstrect_arg layer_arg =
     (case surface of
        None \<Rightarrow> Inl AssertionFailed
      | Some s \<Rightarrow>
          (let request = DrawingRequest_new
                 \<lparr>type := TEXTURE, layer := layer_arg,
                  drawing_effect :=
                    Transform.drawing_effect (transform m_context)
                      XOR effect_from_surface HORIZONTAL_FLIP s,
                  alpha := Transform.alpha (transform m_context)\<rparr>;
               data = TextureRequest
                 (Rectf_pos_size (apply_translate m_context (p1 dstrect_arg))
                    (get_size srcrect_arg))
                 dstrect_arg
                 (get_texture s)
           in Inr (push_back c (request\<lparr>request_data := Some data\<rparr>))))"

definition draw_text ::
  "DrawingContext \<Rightarrow> Canvas \<Rightarrow> Font option \<Rightarrow> string \<Rightarrow> Vector \<Rightarrow> FontAlignment \<Rightarrow> int
     \<Rightarrow> Color \<Rightarrow> Canvas" where
  "draw_text m_context c font_arg text_arg position alignment_arg layer_arg color_arg =
     (let request = DrawingRequest_new
            \<lparr>type := TEXT, layer := layer_arg,
             drawing_effect := Transform.drawing_effect (transform m_context),
             alpha := Transform.alpha (transform m_context),
             color := color_arg\<rparr>;
          textrequest = TextRequest (apply_translate m_context position) font_arg text_arg
            alignment_arg
      in push_back c (request\<lparr>request_data := Some textrequest\<rparr>))"

definition draw_center_text ::
  "DrawingContext \<Rightarrow> Canvas \<Rightarrow> Font option \<Rightarrow> string \<Rightarrow> Vector \<Rightarrow> int \<Rightarrow> Color \<Rightarrow> Canvas" where
  "draw_center_text m_context c font_arg text_arg position layer_arg color_arg =
     draw_text m_context c font_arg text_arg
       (Vector (vx position + real_of_int (DrawingContext.get_width m_context) / 2)
          (vy position))
       ALIGN_CENTER layer_arg color_arg"

definition draw_gradient ::
  "DrawingContext \<Rightarrow> Canvas \<Rightarrow> Color \<Rightarrow> Color \<Rightarrow> int \<Rightarrow> GradientDirection \<Rightarrow> Rectf
     \<Rightarrow> Canvas" where
  "draw_gradient m_context c top_arg bottom_arg layer_arg direction_arg region_arg =
     (let request = DrawingRequest_new
            \<lparr>type := GRADIENT, layer := layer_arg,
             drawing_effect := Transform.drawing_effect (transform m_context),
             alpha := Transform.alpha (transform m_context)\<rparr>;
          gradientrequest = GradientRequest top_arg bottom_arg direction_arg region_arg
      in push_back c (request\<lparr>request_data := Some gradientrequest\<rparr>))"

definition draw_filled_rect_pos_size ::
  "DrawingContext \<Rightarrow> Canvas \<Rightarrow> Vector \<Rightarrow> Vector \<Rightarrow> Color \<Rightarrow> int \<Rightarrow> Canvas" where
  "draw_filled_rect_pos_size m_context c topleft size_arg color_arg layer_arg =
     (let request = DrawingRequest_new
            \<lparr>type := FILLRECT, layer := layer_arg,
             drawing_effect := Transform.drawing_effect (transform m_context),
             alpha := Transform.alpha (transform m_context)\<rparr>;
          fillrectrequest = FillRectRequest (apply_translate m_context topleft) size_arg
            (color_arg\<lparr>Color.alpha :=
               Color.alpha color_arg * Transform.alpha (transform m_context)\<rparr>)
            0
      in push_back c (request\<lparr>request_data := Some fillrectrequest\<rparr>))"

definition draw_filled_rect_radius ::
  "DrawingContext \<Rightarrow> Canvas \<Rightarrow> Rectf \<Rightarrow> Color \<Rightarrow> real \<Rightarrow> int \<Rightarrow> Canvas" where
  "draw_filled_rect_radius m_context c rect color_arg radius_arg layer_arg =
     (let request = DrawingRequest_new
            \<lparr>type := FILLRECT, layer := layer_arg,
             drawing_effect := Transform.drawing_effect (transform m_context),
             alpha := Transform.alpha (transform m_context)\<rparr>;
          fillrectrequest = FillRectRequest (apply_translate m_context (p1 rect))
            (Vector (Rectf_get_width rect) (Rectf_get_height rect))
            (color_arg\<lparr>Color.alpha :=
               Color.alpha color_arg * Transform.alpha (transform m_context)\<rparr>)
            radius_arg
      in push_back c (request\<lparr>request_data := Some fillrectrequest\<rparr>))"

definition draw_filled_rect_rect ::
  "DrawingContext \<Rightarrow> Canvas \<Rightarrow> Rectf \<Rightarrow> Color \<Rightarrow> int \<Rightarrow> Canvas" where
  "draw_filled_rect_rect m_context c rect color_arg layer_arg =
     draw_filled_rect_radius m_context c rect color_arg 0 layer_arg"

definition draw_inverse_ellipse ::
  "DrawingContext \<Rightarrow> Canvas \<Rightarrow> Vector \<Rightarrow> Vector \<Rightarrow> Color \<Rightarrow> int \<Rightarrow> Canvas" where
  "draw_inverse_ellipse m_context c pos_arg size_arg color_arg layer_arg =
     (let request = DrawingRequest_new
            \<lparr>type := INVERSEELLIPSE, layer := layer_arg,
             drawing_effect := Transform.drawing_effect (transform m_context),
             alpha := Transform.alpha (transform m_context)\<rparr>;
          ellipse = InverseEllipseRequest (apply_translate m_context pos_arg) size_arg
            (color_arg\<lparr>Color.alpha :=
               Color.alpha color_arg * Transform.alpha (transform m_context)\<rparr>)
      in push_back c (request\<lparr>request_data := Some ellipse\<rparr>))"

definition draw_line ::
  "DrawingContext \<Rightarrow> Canvas \<Rightarrow> Vector \<Rightarrow> Vector \<Rightarrow> Color \<Rightarrow> int \<Rightarrow> Canvas" where
  "draw_line m_context c pos1_arg pos2_arg color_arg layer_arg =
     (let request = DrawingRequest_new
            \<lparr>type := LINE, layer := layer_arg,
             drawing_effect := Transform.drawing_effect (transform m_context),
             alpha := Transform.alpha (transform m_context)\<rparr>;
          line = LineRequest (apply_translate m_context pos1_arg)
            (apply_translate m_context pos2_arg)
            (color_arg\<lparr>Color.alpha :=
               Color.alpha color_arg * Transform.alpha (transform m_context)\<rparr>)
      in push_back c (request\<lparr>request_data := Some line\<rparr>))"

definition draw_triangle ::
  "DrawingContext \<Rightarrow> Canvas \<Rightarrow> Vector \<Rightarrow> Vector \<Rightarrow> Vector \<Rightarrow> Color \<Rightarrow> int \<Rightarrow> Canvas" where
  "draw_triangle m_context c pos1_arg pos2_arg pos3_arg color_arg layer_arg =
     (let request = DrawingRequest_new
            \<lparr>type := TRIANGLE, layer := layer_arg,
             drawing_effect := Transform.drawing_effect (transform m_context),
             alpha := Transform.alpha (transform m_context)\<rparr>;
          triangle = TriangleRequest (apply_translate m_context pos1_arg)
            (apply_translate m_context pos2_arg) (apply_translate m_context pos3_arg)
            (color_arg\<lparr>Color.alpha :=
               Color.alpha color_arg * Transform.alpha (transform m_context)\<rparr>)
      in push_back c (request\<lparr>request_data := Some triangle\<rparr>))"

subsection \<open>Sequences of draw calls\<close>

text \<open>
  What a client does during a frame: a sequence of draw operations on one canvas, each
  with the context as it is at that moment. A failed assertion ends the sequence.
\<close>

datatype DrawCall =
    Draw_surface "Surface option" Vector real Color Blend int
  | Draw_surface_3 "Surface option" Vector int
  | Draw_surface_part "Surface option" Rectf Rectf int
  | Draw_text "Font option" string Vector FontAlignment int Color
  | Draw_center_text "Font option" string Vector int Color
  | Draw_gradient Color Color int GradientDirection Rectf
  | Draw_filled_rect_pos_size Vector Vector Color int
  | Draw_filled_rect_rect Rectf Color int
  | Draw_filled_rect_radius Rectf Color real int
  | Draw_inverse_ellipse Vector Vector Color int
  | Draw_line Vector Vector Color int
  | Draw_triangle Vector Vector Vector Color int

fun perform :: "DrawingEffect \<Rightarrow> DrawingContext \<Rightarrow> Canvas \<Rightarrow> DrawCall \<Rightarrow> Error + Canvas" where
  "perform H ctx c (Draw_surface s p a col b l) = draw_surface H ctx c s p a col b l"
| "perform H ctx c (Draw_surface_3 s p l) = draw_surface_3 H ctx c s p l"
| "perform H ctx c (Draw_surface_part s src dst l) = draw_surface_part H ctx c s src dst l"
| "perform H ctx c (Draw_text f t p a l col) = Inr (draw_text ctx c f t p a l col)"
| "perform H ctx c (Draw_center_text f t p l col) = Inr (draw_center_text ctx c f t p l col)"
| "perform H ctx c (Draw_gradient t b l d r) = Inr (draw_gradient ctx c t b l d r)"
| "perform H ctx c (Draw_filled_rect_pos_size p s col l) =
     Inr (draw_filled_rect_pos_size ctx c p s col l)"
| "perform H ctx c (Draw_filled_rect_rect r col l) = Inr (draw_filled_rect_rect ctx c r col l)"
| "perform H ctx c (Draw_filled_rect_radius r col rad l) =
     Inr (draw_filled_rect_radius ctx c r col rad l)"
| "perform H ctx c (Draw_inverse_ellipse p s col l) =
     Inr (draw_inverse_ellipse ctx c p s col l)"
| "perform H ctx c (Draw_line a b col l) = Inr (draw_line ctx c a b col l)"
| "perform H ctx c (Draw_triangle a b d col l) = Inr (draw_triangle ctx c a b d col l)"

fun perform_all ::
  "DrawingEffect \<Rightarrow> Canvas \<Rightarrow> (DrawingContext \<times> DrawCall) list \<Rightarrow> Error + Canvas" where
  "perform_all H c [] = Inr c"
| "perform_all H c ((ctx, call) # calls) =
     (case perform H ctx c call of
        Inl e \<Rightarrow> Inl e
      | Inr c' \<Rightarrow> perform_all H c' calls)"

subsection \<open>Notions the properties are stated with\<close>

text \<open>
  A rectangle lies strictly outside another when a vertical or a horizontal line
  separates them; \<open>surface_rect\<close> is the rectangle a surface drawn at a position
  covers, in the coordinates of the clip rectangle and as float arithmetic computes
  it: from the position to the position plus the size of the surface, each sum rounded
  to binary32.
\<close>

definition outside :: "Rectf \<Rightarrow> Rectf \<Rightarrow> bool" where
  "outside d clip \<longleftrightarrow>
     get_left d > get_right clip \<or> get_top d > get_bottom clip \<or>
     get_right d < get_left clip \<or> get_bottom d < get_top clip"

definition surface_rect :: "Vector \<Rightarrow> Surface \<Rightarrow> Rectf" where
  "surface_rect position s =
     \<lparr>p1 = position,
      p2 = Vector (float_add (vx position) (float_of_int (Surface.get_width s)))
                  (float_add (vy position) (float_of_int (Surface.get_height s)))\<rparr>"

definition contains :: "Rectf \<Rightarrow> Vector \<Rightarrow> bool" where
  "contains r p \<longleftrightarrow>
     get_left r \<le> vx p \<and> vx p \<le> get_right r \<and> get_top r \<le> vy p \<and> vy p \<le> get_bottom r"

definition well_formed :: "Rectf \<Rightarrow> bool" where
  "well_formed r \<longleftrightarrow> get_left r \<le> get_right r \<and> get_top r \<le> get_bottom r"

text \<open>The requests, and the payloads, whose destructor a trace of \<open>clear\<close> runs.\<close>

fun destructed_requests :: "DestructorCall list \<Rightarrow> DrawingRequest list" where
  "destructed_requests [] = []"
| "destructed_requests (Destruct_DrawingRequest r # ds) = r # destructed_requests ds"
| "destructed_requests (Destruct_DrawingRequestData d # ds) = destructed_requests ds"

fun destructed_payloads :: "DestructorCall list \<Rightarrow> DrawingRequestData list" where
  "destructed_payloads [] = []"
| "destructed_payloads (Destruct_DrawingRequest r # ds) = destructed_payloads ds"
| "destructed_payloads (Destruct_DrawingRequestData d # ds) = d # destructed_payloads ds"

text \<open>
  The alpha of the colour a filled-shape payload stores, and the colour argument of a
  filled-shape draw call.
\<close>

fun payload_alpha :: "DrawingRequest \<Rightarrow> real option" where
  "payload_alpha r =
     (case request_data r of
        Some (FillRectRequest p s c rad) \<Rightarrow> Some (Color.alpha c)
      | Some (InverseEllipseRequest p s c) \<Rightarrow> Some (Color.alpha c)
      | Some (LineRequest p q c) \<Rightarrow> Some (Color.alpha c)
      | Some (TriangleRequest p q r c) \<Rightarrow> Some (Color.alpha c)
      | _ \<Rightarrow> None)"

fun shape_color :: "DrawCall \<Rightarrow> Color option" where
  "shape_color (Draw_filled_rect_pos_size p s col l) = Some col"
| "shape_color (Draw_filled_rect_rect r col l) = Some col"
| "shape_color (Draw_filled_rect_radius r col rad l) = Some col"
| "shape_color (Draw_inverse_ellipse p s col l) = Some col"
| "shape_color (Draw_line a b col l) = Some col"
| "shape_color (Draw_triangle a b d col l) = Some col"
| "shape_color _ = None"

text \<open>
  A draw call gives a font when it is not a text draw with a null font; a request is
  renderable when the switch of \<open>render\<close> can dispatch it: a text request needs a
  text payload with a font.
\<close>

fun font_given :: "DrawCall \<Rightarrow> bool" where
  "font_given (Draw_text f t p a l col) = (f \<noteq> None)"
| "font_given (Draw_center_text f t p l col) = (f \<noteq> None)"
| "font_given _ = True"

definition renderable :: "DrawingRequest \<Rightarrow> bool" where
  "renderable r =
     (case type r of
        TEXT \<Rightarrow>
          (case request_data r of
             Some (TextRequest tpos (Some f) ttext talignment) \<Rightarrow> True
           | _ \<Rightarrow> False)
      | _ \<Rightarrow> True)"

subsection \<open>A concrete frame\<close>

text \<open>
  A context with a translation of \<open>(10, 20)\<close>, a viewport at \<open>(5, 7)\<close>, a clip
  rectangle of 640 by 480 and a global alpha of one half; and the scene of the spec's
  end-to-end scenario: a filled rectangle at layer 10, a texture at layer 5, a line at
  layer 10.
\<close>

definition ex_context :: DrawingContext where
  "ex_context =
     \<lparr>transform = \<lparr>apply = (\<lambda>v. Vector (vx v - 10) (vy v - 20)),
                    Transform.drawing_effect = 0, Transform.alpha = 1/2\<rparr>,
      get_cliprect = Rectf_coords 0 0 640 480,
      get_viewport = \<lparr>left = 5, top_rect = 7, right = 645, bottom_rect = 487\<rparr>,
      DrawingContext.get_width = 640\<rparr>"

definition ex_surface :: Surface where
  "ex_surface =
     \<lparr>Surface.get_width = 32, Surface.get_height = 16, get_flipx = True, get_texture = 1\<rparr>"

definition ex_color :: Color where
  "ex_color = \<lparr>red = 1, green = 0, blue = 0, Color.alpha = 1/2\<rparr>"

definition ex_scene_calls :: "(DrawingContext \<times> DrawCall) list" where
  "ex_scene_calls =
     [(ex_context, Draw_filled_rect_pos_size (Vector 0 0) (Vector 8 8) ex_color 10),
      (ex_context, Draw_surface_3 (Some ex_surface) (Vector 100 100) 5),
      (ex_context, Draw_line (Vector 0 0) (Vector 50 50) ex_color 10)]"

definition ex_scene :: Canvas where
  "ex_scene =
     (case perform_all 4 (Canvas_new NORMAL) ex_scene_calls of
        Inr c \<Rightarrow> c
      | Inl e \<Rightarrow> Canvas_new NORMAL)"

text \<open>
  Three lines at the layers around the threshold 450, and a canvas that holds a light
  query (no draw operation of this file builds one) and a line.
\<close>

definition ex_boundary :: Canvas where
  "ex_boundary =
     draw_line ex_context
       (draw_line ex_context
          (draw_line ex_context (Canvas_new NORMAL) (Vector 0 0) (Vector 1 1) ex_color 451)
          (Vector 0 0) (Vector 2 2) ex_color 450)
       (Vector 0 0) (Vector 3 3) ex_color 449"


text \<open>
  A partial texture draw: source and destination rectangles of 16 by 16, the
  destination inside the clip rectangle (\<open>ex_dst\<close>) or far outside it (\<open>ex_far\<close>).
\<close>

definition ex_src :: Rectf where
  "ex_src = Rectf_coords 0 0 16 16"

definition ex_dst :: Rectf where
  "ex_dst = Rectf_coords 100 100 116 116"

definition ex_far :: Rectf where
  "ex_far = Rectf_coords 1000 1000 1016 1016"

definition ex_part :: "Error + Canvas" where
  "ex_part = draw_surface_part 4 ex_context (Canvas_new NORMAL) (Some ex_surface) ex_src ex_dst 1"

text \<open>
  The scene followed by a text draw with a null font at layer 7; a frame that uses
  every draw operation, with layers on both sides of the threshold 450; and a clip
  rectangle whose left edge is at 1000, with a surface 512 wide.
\<close>

definition ex_null_text :: Canvas where
  "ex_null_text =
     (case perform_all 4 (Canvas_new NORMAL)
             (ex_scene_calls @
              [(ex_context, Draw_text None ''hi'' (Vector 1 2) ALIGN_LEFT 7 ex_color)]) of
        Inr c \<Rightarrow> c
      | Inl e \<Rightarrow> Canvas_new NORMAL)"

definition ex_frame_calls :: "(DrawingContext \<times> DrawCall) list" where
  "ex_frame_calls =
     [(ex_context, Draw_surface (Some ex_surface) (Vector 100 100) 0 ex_color Blend_default 451),
      (ex_context, Draw_surface_3 (Some ex_surface) (Vector 10 10) 449),
      (ex_context, Draw_surface_part (Some ex_surface) ex_src ex_dst 450),
      (ex_context, Draw_text (Some 9) ''hi'' (Vector 1 2) ALIGN_LEFT 500 ex_color),
      (ex_context, Draw_center_text (Some 9) ''mid'' (Vector 0 0) 450 ex_color),
      (ex_context, Draw_gradient ex_color ex_color 0 VERTICAL ex_dst),
      (ex_context, Draw_filled_rect_pos_size (Vector 0 0) (Vector 8 8) ex_color 449),
      (ex_context, Draw_filled_rect_rect ex_dst ex_color 451),
      (ex_context, Draw_filled_rect_radius ex_dst ex_color 2 450),
      (ex_context, Draw_inverse_ellipse (Vector 5 5) (Vector 8 8) ex_color 10),
      (ex_context, Draw_line (Vector 0 0) (Vector 50 50) ex_color 450),
      (ex_context, Draw_triangle (Vector 0 0) (Vector 1 0) (Vector 0 1) ex_color 1000)]"

definition ex_frame :: Canvas where
  "ex_frame =
     (case perform_all 4 (Canvas_new NORMAL) ex_frame_calls of
        Inr c \<Rightarrow> c
      | Inl e \<Rightarrow> Canvas_new NORMAL)"

definition ex_clip_context :: DrawingContext where
  "ex_clip_context = ex_context\<lparr>get_cliprect := Rectf_coords 1000 0 2000 480\<rparr>"

definition ex_wide :: Surface where
  "ex_wide =
     \<lparr>Surface.get_width = 512, Surface.get_height = 16, get_flipx = False, get_texture = 2\<rparr>"

section \<open>Properties\<close>

subsection \<open>Binary32 rounding\<close>

lemma round_half_even_of_int: "round_half_even (of_int m) = m"
  by (simp add: round_half_even_def)

lemma pow2_pos: "0 < pow2 k"
  by (simp add: pow2_def)

lemma pow2_powr: "pow2 k = 2 powr (of_int k)"
  by (simp add: pow2_def powr_real_of_int inverse_eq_divide)

lemma pow2_neg: "k \<le> 0 \<Longrightarrow> pow2 k = 1 / 2 ^ nat (- k)"
  by (cases "k = 0") (simp_all add: pow2_def)

lemma binary32_exponent_eq:
  assumes "pow2 k \<le> \<bar>v\<bar>" "\<bar>v\<bar> < pow2 (k + 1)" "- 126 \<le> k"
  shows "binary32_exponent v = k"
proof -
  have pos: "0 < \<bar>v\<bar>" using assms(1) pow2_pos[of k] by linarith
  have "2 powr (of_int k) \<le> \<bar>v\<bar>" "\<bar>v\<bar> < 2 powr (of_int k + 1)"
    using assms(1,2) by (simp_all add: pow2_powr)
  then have "\<lfloor>log 2 \<bar>v\<bar>\<rfloor> = k"
    using pos by (simp add: floor_log_eq_powr_iff)
  with assms(3) show ?thesis by (simp add: binary32_exponent_def)
qed

text \<open>The rounding of a value whose binary exponent is known.\<close>

lemma to_float_eval:
  assumes "pow2 k \<le> \<bar>v\<bar>" "\<bar>v\<bar> < pow2 (k + 1)" "- 126 \<le> k"
  shows "to_float v = of_int (round_half_even (v / pow2 (k - 23))) * pow2 (k - 23)"
proof -
  have "0 < \<bar>v\<bar>" using assms(1) pow2_pos[of k] by linarith
  then have "v \<noteq> 0" by simp
  then show ?thesis by (simp add: to_float_def binary32_exponent_eq[OF assms])
qed

text \<open>Integers up to 16777216 are floats: rounding leaves them as they are.\<close>

lemma to_float_int:
  assumes "v \<in> \<int>" "\<bar>v\<bar> \<le> 16777216"
  shows "to_float v = v"
proof (cases "v = 0")
  case True
  then show ?thesis by (simp add: to_float_def)
next
  case False
  from assms(1) obtain i where i: "v = of_int i" by (auto elim: Ints_cases)
  with False have "i \<noteq> 0" by auto
  then have one: "1 \<le> \<bar>v\<bar>" using i by (simp flip: of_int_abs)
  define k where "k = \<lfloor>log 2 \<bar>v\<bar>\<rfloor>"
  have pos: "0 < \<bar>v\<bar>" using one by linarith
  have b: "pow2 k \<le> \<bar>v\<bar>" "\<bar>v\<bar> < pow2 (k + 1)"
    using floor_log_eq_powr_iff[of "\<bar>v\<bar>" 2 k] pos by (simp_all add: k_def pow2_powr)
  have k0: "0 \<le> k" using one by (simp add: k_def)
  have k24: "k \<le> 24"
  proof (rule ccontr)
    assume "\<not> k \<le> 24"
    then have "25 \<le> k" by simp
    then have "(2::real) powr 25 \<le> 2 powr (of_int k)" by (intro powr_mono) simp_all
    with b(1) assms(2) show False by (simp add: pow2_powr)
  qed
  from k0 have m: "- 126 \<le> k" by simp
  note ev = to_float_eval[OF b m]
  show ?thesis
  proof (cases "k \<le> 23")
    case True
    then have p: "pow2 (k - 23) = 1 / 2 ^ nat (23 - k)" using pow2_neg[of "k - 23"] by simp
    have "v / pow2 (k - 23) = of_int (i * 2 ^ nat (23 - k))" by (simp add: p i)
    then have "round_half_even (v / pow2 (k - 23)) = i * 2 ^ nat (23 - k)"
      by (simp only: round_half_even_of_int)
    with ev have "to_float v = of_int (i * 2 ^ nat (23 - k)) * pow2 (k - 23)"
      by (simp only:)
    also have "\<dots> = v" by (simp add: p i)
    finally show ?thesis .
  next
    case False
    with k24 have k: "k = 24" by simp
    with b(1) assms(2) have "\<bar>v\<bar> = 16777216" by (simp add: pow2_def)
    then have "v = 16777216 \<or> v = - 16777216" by linarith
    then show ?thesis using ev k by (auto simp: pow2_def round_half_even_def)
  qed
qed

text \<open>
  A sum that binary32 rounds up: 488 - 1/32768 is a float, and adding 512 to it gives
  1000, the exact sum lying halfway between two floats.
\<close>

lemma float_add_rounds_up: "float_add (488 - 1 / 32768) (float_of_int 512) = 1000"
proof -
  have "to_float (32767999 / 32768) = 1000"
    by (subst to_float_eval[where k = 9]) (simp_all add: pow2_def round_half_even_def)
  then show ?thesis by (simp add: float_add_def float_of_int_def to_float_int)
qed

lemmas ex_defs = ex_context_def ex_surface_def ex_color_def ex_scene_calls_def ex_scene_def

lemmas frame_defs = ex_frame_def ex_frame_calls_def ex_null_text_def ex_src_def ex_dst_def

lemmas draw_defs = draw_surface_def draw_surface_3_def draw_surface_part_def draw_text_def
  draw_center_text_def draw_gradient_def draw_filled_rect_pos_size_def
  draw_filled_rect_radius_def draw_filled_rect_rect_def draw_inverse_ellipse_def
  draw_line_def draw_triangle_def push_back_def Canvas_new_def DrawingRequest_new_def

lemmas geom_defs = Rectf_coords_def Rectf_pos_size_def get_left_def get_right_def get_top_def
  get_bottom_def get_size_def Rectf_get_width_def Rectf_get_height_def Sizef_of_Size_def
  vector_plus_def apply_translate_def Color_rgb_def Blend_default_def effect_from_surface_def
  float_add_def float_of_int_def to_float_int

lemmas render_defs = render_def layer_less_def select_painter_def dispatch_def
  dispatch_text_def

subsection \<open>The sort is the stable sort by layer\<close>

lemma stable_insert_insort: "stable_insert layer_less a xs = insort_key layer a xs"
  by (induction xs) (auto simp: layer_less_def)

lemma stable_sort_sort_key: "stable_sort layer_less xs = sort_key layer xs"
  by (induction xs) (simp_all add: stable_insert_insort)

subsection \<open>What the dispatch loop does\<close>

lemma render_loop_prefix:
  "prefix (map fst (fst (render_loop T f p rs))) (filter (survives T f) rs)"
  by (induction rs) (auto simp: survives_def split: sum.splits prod.splits)

lemma render_loop_complete:
  "snd (render_loop T f p rs) = None \<Longrightarrow>
   map fst (fst (render_loop T f p rs)) = filter (survives T f) rs"
  by (induction rs) (auto simp: survives_def split: sum.splits prod.splits if_splits)


lemma render_loop_failure:
  "snd (render_loop T f p rs) = Some e \<Longrightarrow>
   \<exists>r \<in> set rs. survives T f r \<and> dispatch p r = Inl e"
  by (induction rs) (auto simp: survives_def split: sum.splits prod.splits if_splits)

lemma render_loop_success_iff:
  "snd (render_loop T f p rs) = None \<longleftrightarrow>
   (\<forall>r \<in> set rs. survives T f r \<longrightarrow> (\<exists>k. dispatch p r = Inr k))"
  by (induction rs) (auto simp: survives_def split: sum.splits prod.splits if_splits)

lemma dispatched_render:
  "dispatched (render T c f) =
   fst (render_loop T f (select_painter (m_target c)) (sort_key layer (m_requests c)))"
  by (simp add: render_def stable_sort_sort_key Let_def split: prod.splits)

lemma failure_render:
  "failure (render T c f) =
   snd (render_loop T f (select_painter (m_target c)) (sort_key layer (m_requests c)))"
  by (simp add: render_def stable_sort_sort_key Let_def split: prod.splits)

lemma canvas_after_render:
  "canvas_after (render T c f) = c\<lparr>m_requests := sort_key layer (m_requests c)\<rparr>"
  by (simp add: render_def stable_sort_sort_key Let_def split: prod.splits)

lemma dispatched_prefix:
  "prefix (map fst (dispatched (render T c f)))
     (filter (survives T f) (sort_key layer (m_requests c)))"
  by (simp add: dispatched_render render_loop_prefix)

lemma sorted_map_prefix:
  "prefix xs ys \<Longrightarrow> sorted (map f ys) \<Longrightarrow> sorted (map f xs)"
  by (auto simp: prefix_def sorted_append)

lemma filter_layer_survives:
  "prefix (filter (survives T f) (filter (\<lambda>r. layer r = k) xs))
     (filter (\<lambda>r. layer r = k) xs)"
proof (cases "\<exists>r. layer r = k \<and> survives T f r")
  case True
  then obtain r0 where r0: "layer r0 = k" "survives T f r0" by blast
  have "filter (survives T f) (filter (\<lambda>r. layer r = k) xs) = filter (\<lambda>r. layer r = k) xs"
  proof (rule filter_True)
    show "\<forall>x\<in>set (filter (\<lambda>r. layer r = k) xs). survives T f x"
      using r0 by (auto simp: survives_def)
  qed
  then show ?thesis by simp
next
  case False
  then have "filter (survives T f) (filter (\<lambda>r. layer r = k) xs) = []"
    by (auto simp: filter_empty_conv)
  then show ?thesis by simp
qed

subsection \<open>Draw calls only append\<close>

text \<open>
  Every draw operation leaves the buffer as it is or appends one request at its end,
  so the order of the buffer before \<open>render\<close> is the order of insertion.
\<close>

lemma perform_appends:
  "perform H ctx c call = Inr c' \<Longrightarrow>
   m_target c' = m_target c \<and>
   (m_requests c' = m_requests c \<or> (\<exists>r. m_requests c' = m_requests c @ [r]))"
  by (cases call)
     (auto simp: draw_defs Let_def split: option.splits if_splits)

lemma perform_all_prefix:
  "perform_all H c calls = Inr c' \<Longrightarrow> prefix (m_requests c) (m_requests c')"
proof (induction calls arbitrary: c)
  case Nil
  then show ?case by simp
next
  case (Cons a calls)
  obtain ctx call where a: "a = (ctx, call)" by (cases a)
  from Cons.prems a obtain c1 where
    c1: "perform H ctx c call = Inr c1" and rest: "perform_all H c1 calls = Inr c'"
    by (auto split: sum.splits)
  from perform_appends[OF c1] have "prefix (m_requests c) (m_requests c1)"
    by (auto simp: prefix_def)
  with Cons.IH[OF rest] show ?case by (rule prefix_order.trans[rotated])
qed

subsection \<open>Draw calls with fonts render completely\<close>

text \<open>
  The only dispatch that can fail is that of a text request. After draw calls that
  all give a font, on an empty canvas, every request is renderable and \<open>render\<close>
  completes.
\<close>

lemma dispatch_renderable: "renderable r \<Longrightarrow> \<exists>k. dispatch p r = Inr k"
  by (cases "type r")
     (auto simp: renderable_def dispatch_def dispatch_text_def
           split: option.splits DrawingRequestData.splits)

lemma render_completes:
  assumes "list_all renderable (m_requests c)"
  shows "failure (render T c f) = None"
  using assms dispatch_renderable
  by (auto simp: failure_render render_loop_success_iff list_all_iff)

lemma perform_renderable:
  assumes "perform H ctx c call = Inr c'" "font_given call"
    and "list_all renderable (m_requests c)"
  shows "list_all renderable (m_requests c')"
  using assms
  by (cases call)
     (auto simp: draw_defs renderable_def Let_def split: option.splits if_splits)

lemma perform_all_renderable:
  "perform_all H c calls = Inr c' \<Longrightarrow> list_all font_given (map snd calls) \<Longrightarrow>
   list_all renderable (m_requests c) \<Longrightarrow> list_all renderable (m_requests c')"
proof (induction calls arbitrary: c)
  case Nil
  then show ?case by simp
next
  case (Cons a calls)
  obtain ctx call where a: "a = (ctx, call)" by (cases a)
  from Cons.prems(1) a obtain c1 where
    c1: "perform H ctx c call = Inr c1" and rest: "perform_all H c1 calls = Inr c'"
    by (auto split: sum.splits)
  from Cons.prems(2) a have fg: "font_given call" "list_all font_given (map snd calls)"
    by simp_all
  from perform_renderable[OF c1 fg(1) Cons.prems(3)]
  show ?case by (rule Cons.IH[OF rest fg(2)])
qed

lemma draw_calls_render:
  assumes "perform_all H c0 calls = Inr c" "m_requests c0 = []"
    and "list_all font_given (map snd calls)"
  shows "failure (render T c f) = None"
proof (rule render_completes)
  show "list_all renderable (m_requests c)"
    using perform_all_renderable[OF assms(1,3)] assms(2) by simp
qed

subsection \<open>C1: the order of dispatch\<close>

text \<open>
  Whatever the buffer holds, the requests dispatched before \<open>render\<close> ends or fails
  come in non-decreasing order of layer, and those of any one layer in the order they
  have in the buffer.
\<close>

lemma dispatched_sorted_stable:
  "sorted (map layer (map fst (dispatched (render T c f)))) \<and>
   (\<forall>k. prefix (filter (\<lambda>r. layer r = k) (map fst (dispatched (render T c f))))
               (filter (\<lambda>r. layer r = k) (m_requests c)))"
proof (intro conjI allI)
  let ?ds = "map fst (dispatched (render T c f))"
  let ?ys = "filter (survives T f) (sort_key layer (m_requests c))"
  have pre: "prefix ?ds ?ys" by (rule dispatched_prefix)
  have "sorted (map layer ?ys)" by (rule sorted_filter) (rule sorted_sort_key)
  with pre show "sorted (map layer ?ds)" by (rule sorted_map_prefix)
  fix k
  have "prefix (filter (\<lambda>r. layer r = k) ?ds) (filter (\<lambda>r. layer r = k) ?ys)"
    using pre by (rule filter_mono_prefix)
  also have "filter (\<lambda>r. layer r = k) ?ys
      = filter (survives T f) (filter (\<lambda>r. layer r = k) (sort_key layer (m_requests c)))"
    by (simp only: filter_filter conj_commute)
  also have "\<dots> = filter (survives T f) (filter (\<lambda>r. layer r = k) (m_requests c))"
    by (simp only: sort_key_stable)
  finally show "prefix (filter (\<lambda>r. layer r = k) ?ds)
      (filter (\<lambda>r. layer r = k) (m_requests c))"
    using filter_layer_survives[of T f k "m_requests c"] by (rule prefix_order.trans)
qed

text \<open>
  The claim fails for a sequence of draw calls with a null font: after the scene and a
  text draw with a null font at layer 7, \<open>render\<close> dispatches the texture of layer 5
  and stops at the text request; the rectangle and the line of layer 10 are never
  dispatched.
\<close>

theorem render_dispatch_order_counterexample:
  "\<not> (map fst (dispatched (render 450 ex_null_text NO_FILTER))
        = filter (survives 450 NO_FILTER) (sort_key layer (m_requests ex_null_text))) \<and>
   map type (m_requests ex_null_text) = [FILLRECT, TEXTURE, LINE, TEXT] \<and>
   map layer (m_requests ex_null_text) = [10, 5, 10, 7] \<and>
   map (type \<circ> fst) (dispatched (render 450 ex_null_text NO_FILTER)) = [TEXTURE] \<and>
   failure (render 450 ex_null_text NO_FILTER) = Some NullPointerDereference"
proof -
  have a: "map (type \<circ> fst) (dispatched (render 450 ex_null_text NO_FILTER)) = [TEXTURE]"
    by (simp add: frame_defs ex_defs draw_defs geom_defs render_defs Let_def)
  have b: "map type (filter (survives 450 NO_FILTER) (sort_key layer (m_requests ex_null_text)))
      = [TEXTURE, TEXT, FILLRECT, LINE]"
    by (simp add: frame_defs ex_defs draw_defs geom_defs survives_def)
  have "map fst (dispatched (render 450 ex_null_text NO_FILTER))
        \<noteq> filter (survives 450 NO_FILTER) (sort_key layer (m_requests ex_null_text))"
  proof
    assume "map fst (dispatched (render 450 ex_null_text NO_FILTER))
        = filter (survives 450 NO_FILTER) (sort_key layer (m_requests ex_null_text))"
    then have "map type (map fst (dispatched (render 450 ex_null_text NO_FILTER)))
        = [TEXTURE, TEXT, FILLRECT, LINE]"
      using b by (simp only:)
    with a show False by simp
  qed
  moreover have "map type (m_requests ex_null_text) = [FILLRECT, TEXTURE, LINE, TEXT]"
    by (simp add: frame_defs ex_defs draw_defs geom_defs)
  moreover have "map layer (m_requests ex_null_text) = [10, 5, 10, 7]"
    by (simp add: frame_defs ex_defs draw_defs geom_defs)
  moreover have "failure (render 450 ex_null_text NO_FILTER) = Some NullPointerDereference"
    by (simp add: frame_defs ex_defs draw_defs geom_defs render_defs Let_def)
  ultimately show ?thesis using a by blast
qed

text \<open>
  C1 (amended). After any sequence of draw calls on an empty canvas in which every
  texture draw has a surface and every text draw a font, \<open>render\<close> completes and
  dispatches the survivors of the filter in non-decreasing order of layer, requests of
  equal layer in insertion order: the dispatch order is the stable sort of the
  insertion order by ascending layer, restricted to the survivors.
\<close>

theorem render_dispatch_order:
  assumes "perform_all H c0 calls = Inr c" and "m_requests c0 = []"
    and "list_all font_given (map snd calls)"
  shows "failure (render T c f) = None \<and>
   map fst (dispatched (render T c f))
     = filter (survives T f) (sort_key layer (m_requests c)) \<and>
   sorted (map layer (map fst (dispatched (render T c f)))) \<and>
   (\<forall>k. filter (\<lambda>r. layer r = k) (map fst (dispatched (render T c f)))
        = filter (\<lambda>r. layer r = k) (filter (survives T f) (m_requests c)))"
proof -
  let ?ds = "map fst (dispatched (render T c f))"
  have ok: "failure (render T c f) = None"
    by (rule draw_calls_render[OF assms])
  then have eq: "?ds = filter (survives T f) (sort_key layer (m_requests c))"
    by (simp add: failure_render dispatched_render render_loop_complete)
  have srt: "sorted (map layer ?ds)"
    unfolding eq by (rule sorted_filter) (rule sorted_sort_key)
  have st: "filter (\<lambda>r. layer r = k) ?ds
      = filter (\<lambda>r. layer r = k) (filter (survives T f) (m_requests c))" for k
  proof -
    have "filter (\<lambda>r. layer r = k) ?ds
        = filter (survives T f) (filter (\<lambda>r. layer r = k) (sort_key layer (m_requests c)))"
      unfolding eq by (simp only: filter_filter conj_commute)
    also have "\<dots> = filter (survives T f) (filter (\<lambda>r. layer r = k) (m_requests c))"
      by (simp only: sort_key_stable)
    also have "\<dots> = filter (\<lambda>r. layer r = k) (filter (survives T f) (m_requests c))"
      by (simp only: filter_filter conj_commute)
    finally show ?thesis .
  qed
  from ok eq srt st show ?thesis by blast
qed

theorem render_dispatch_order_witness:
  "perform_all 4 (Canvas_new NORMAL) ex_frame_calls = Inr ex_frame \<and>
   m_requests (Canvas_new NORMAL) = [] \<and>
   list_all font_given (map snd ex_frame_calls) \<and>
   failure (render 450 ex_frame NO_FILTER) = None \<and>
   map type (m_requests ex_frame)
     = [TEXTURE, TEXTURE, TEXTURE, TEXT, TEXT, GRADIENT, FILLRECT, FILLRECT, FILLRECT,
        INVERSEELLIPSE, LINE, TRIANGLE] \<and>
   map layer (m_requests ex_frame)
     = [451, 449, 450, 500, 450, 0, 449, 451, 450, 10, 450, 1000] \<and>
   map type (map fst (dispatched (render 450 ex_frame NO_FILTER)))
     = [GRADIENT, INVERSEELLIPSE, TEXTURE, FILLRECT, TEXTURE, TEXT, FILLRECT, LINE,
        TEXTURE, FILLRECT, TEXT, TRIANGLE] \<and>
   map layer (map fst (dispatched (render 450 ex_frame NO_FILTER)))
     = [0, 10, 449, 449, 450, 450, 450, 450, 451, 451, 500, 1000] \<and>
   map type (map fst (dispatched (render 450 ex_scene NO_FILTER)))
     = [TEXTURE, FILLRECT, LINE]"
proof -
  have h1: "perform_all 4 (Canvas_new NORMAL) ex_frame_calls = Inr ex_frame"
    by (simp add: frame_defs ex_defs draw_defs geom_defs)
  have h2: "m_requests (Canvas_new NORMAL) = []" by (simp add: Canvas_new_def)
  have h3: "list_all font_given (map snd ex_frame_calls)"
    by (simp add: ex_frame_calls_def)
  have g1: "perform_all 4 (Canvas_new NORMAL) ex_scene_calls = Inr ex_scene"
    by (simp add: ex_defs draw_defs geom_defs)
  have g3: "list_all font_given (map snd ex_scene_calls)"
    by (simp add: ex_scene_calls_def)
  note frame = render_dispatch_order[OF h1 h2 h3, of 450 NO_FILTER]
  note scene = render_dispatch_order[OF g1 h2 g3, of 450 NO_FILTER]
  have t0: "map type (m_requests ex_frame)
     = [TEXTURE, TEXTURE, TEXTURE, TEXT, TEXT, GRADIENT, FILLRECT, FILLRECT, FILLRECT,
        INVERSEELLIPSE, LINE, TRIANGLE]"
    by (simp add: frame_defs ex_defs draw_defs geom_defs)
  have l0: "map layer (m_requests ex_frame)
     = [451, 449, 450, 500, 450, 0, 449, 451, 450, 10, 450, 1000]"
    by (simp add: frame_defs ex_defs draw_defs geom_defs)
  have t1: "map type (filter (survives 450 NO_FILTER) (sort_key layer (m_requests ex_frame)))
     = [GRADIENT, INVERSEELLIPSE, TEXTURE, FILLRECT, TEXTURE, TEXT, FILLRECT, LINE,
        TEXTURE, FILLRECT, TEXT, TRIANGLE]"
    by (simp add: frame_defs ex_defs draw_defs geom_defs survives_def)
  have l1: "map layer (filter (survives 450 NO_FILTER) (sort_key layer (m_requests ex_frame)))
     = [0, 10, 449, 449, 450, 450, 450, 450, 451, 451, 500, 1000]"
    by (simp add: frame_defs ex_defs draw_defs geom_defs survives_def)
  have t2: "map type (filter (survives 450 NO_FILTER) (sort_key layer (m_requests ex_scene)))
     = [TEXTURE, FILLRECT, LINE]"
    by (simp add: ex_defs draw_defs geom_defs survives_def)
  from frame have ok: "failure (render 450 ex_frame NO_FILTER) = None" by blast
  from frame t1 have a: "map type (map fst (dispatched (render 450 ex_frame NO_FILTER)))
     = [GRADIENT, INVERSEELLIPSE, TEXTURE, FILLRECT, TEXTURE, TEXT, FILLRECT, LINE,
        TEXTURE, FILLRECT, TEXT, TRIANGLE]"
    by (simp only:)
  from frame l1 have b: "map layer (map fst (dispatched (render 450 ex_frame NO_FILTER)))
     = [0, 10, 449, 449, 450, 450, 450, 450, 451, 451, 500, 1000]"
    by (simp only:)
  from scene t2 have d: "map type (map fst (dispatched (render 450 ex_scene NO_FILTER)))
     = [TEXTURE, FILLRECT, LINE]"
    by (simp only:)
  from h1 h2 h3 ok t0 l0 a b d show ?thesis by blast
qed

subsection \<open>C3: the filter\<close>

lemma mset_dispatched:
  "failure (render T c f) = None \<Longrightarrow>
   mset (map fst (dispatched (render T c f))) = filter_mset (survives T f) (mset (m_requests c))"
  by (simp add: failure_render dispatched_render render_loop_complete)

lemma not_dispatched:
  "\<not> survives T f r \<Longrightarrow> r \<notin> fst ` set (dispatched (render T c f))"
proof
  assume ns: "\<not> survives T f r" and "r \<in> fst ` set (dispatched (render T c f))"
  then have "r \<in> set (map fst (dispatched (render T c f)))" by simp
  then have "r \<in> set (filter (survives T f) (sort_key layer (m_requests c)))"
    using dispatched_prefix[of T c f] set_mono_prefix by blast
  with ns show False by simp
qed

text \<open>
  The claim fails for the same sequence: all four requests have a layer below 450, and
  \<open>render\<close> with the below-threshold filter (or with no filter) dispatches one.
\<close>

theorem render_filter_partition_counterexample:
  "\<not> (mset (map fst (dispatched (render 450 ex_null_text BELOW_LIGHTMAP)))
        = mset (filter (survives 450 BELOW_LIGHTMAP) (m_requests ex_null_text))) \<and>
   map layer (m_requests ex_null_text) = [10, 5, 10, 7] \<and>
   map layer (filter (survives 450 BELOW_LIGHTMAP) (m_requests ex_null_text)) = [10, 5, 10, 7] \<and>
   map layer (map fst (dispatched (render 450 ex_null_text BELOW_LIGHTMAP))) = [5] \<and>
   map layer (map fst (dispatched (render 450 ex_null_text NO_FILTER))) = [5]"
proof -
  have a: "map layer (map fst (dispatched (render 450 ex_null_text BELOW_LIGHTMAP))) = [5]"
    by (simp add: frame_defs ex_defs draw_defs geom_defs render_defs Let_def)
  have a': "map layer (map fst (dispatched (render 450 ex_null_text NO_FILTER))) = [5]"
    by (simp add: frame_defs ex_defs draw_defs geom_defs render_defs Let_def)
  have b: "map layer (filter (survives 450 BELOW_LIGHTMAP) (m_requests ex_null_text))
      = [10, 5, 10, 7]"
    by (simp add: frame_defs ex_defs draw_defs geom_defs survives_def)
  have l: "map layer (m_requests ex_null_text) = [10, 5, 10, 7]"
    by (simp add: frame_defs ex_defs draw_defs geom_defs)
  have "mset (map fst (dispatched (render 450 ex_null_text BELOW_LIGHTMAP)))
        \<noteq> mset (filter (survives 450 BELOW_LIGHTMAP) (m_requests ex_null_text))"
  proof
    assume "mset (map fst (dispatched (render 450 ex_null_text BELOW_LIGHTMAP)))
        = mset (filter (survives 450 BELOW_LIGHTMAP) (m_requests ex_null_text))"
    then have "length (map fst (dispatched (render 450 ex_null_text BELOW_LIGHTMAP)))
        = length (filter (survives 450 BELOW_LIGHTMAP) (m_requests ex_null_text))"
      by (rule mset_eq_length)
    then have "length (map layer (map fst (dispatched (render 450 ex_null_text BELOW_LIGHTMAP))))
        = length (map layer (filter (survives 450 BELOW_LIGHTMAP) (m_requests ex_null_text)))"
      by (simp only: length_map)
    then show False by (simp only: a b) simp
  qed
  with l b a a' show ?thesis by blast
qed

text \<open>
  C3 (amended). With the threshold \<open>T\<close> (\<^verbatim>\<open>LAYER_LIGHTMAP\<close>), after any sequence of
  draw calls on an empty canvas in which every texture draw has a surface and every
  text draw a font, \<open>render\<close> dispatches exactly the buffered requests with layer
  below \<open>T\<close> under \<^verbatim>\<open>BELOW_LIGHTMAP\<close>, exactly those with layer above \<open>T\<close> under
  \<^verbatim>\<open>ABOVE_LIGHTMAP\<close>, and all of them under no filter; a request with layer exactly
  \<open>T\<close> is dispatched under no filter only.
\<close>

theorem render_filter_partition:
  assumes "perform_all H c0 calls = Inr c" and "m_requests c0 = []"
    and "list_all font_given (map snd calls)"
  shows "mset (map fst (dispatched (render T c BELOW_LIGHTMAP)))
        = filter_mset (\<lambda>r. layer r < T) (mset (m_requests c)) \<and>
   mset (map fst (dispatched (render T c ABOVE_LIGHTMAP)))
        = filter_mset (\<lambda>r. layer r > T) (mset (m_requests c)) \<and>
   mset (map fst (dispatched (render T c NO_FILTER))) = mset (m_requests c) \<and>
   (\<forall>r. layer r = T \<longrightarrow>
      r \<notin> fst ` set (dispatched (render T c BELOW_LIGHTMAP)) \<and>
      r \<notin> fst ` set (dispatched (render T c ABOVE_LIGHTMAP))) \<and>
   (\<forall>r \<in> set (m_requests c). r \<in> fst ` set (dispatched (render T c NO_FILTER)))"
proof -
  have b: "survives T BELOW_LIGHTMAP = (\<lambda>r. layer r < T)"
    by (auto simp: survives_def fun_eq_iff)
  have a: "survives T ABOVE_LIGHTMAP = (\<lambda>r. layer r > T)"
    by (auto simp: survives_def fun_eq_iff)
  have n: "survives T NO_FILTER = (\<lambda>r. True)"
    by (auto simp: survives_def fun_eq_iff)
  have ok: "failure (render T c f) = None" for f
    by (rule draw_calls_render[OF assms])
  have 1: "mset (map fst (dispatched (render T c BELOW_LIGHTMAP)))
        = filter_mset (\<lambda>r. layer r < T) (mset (m_requests c))"
    using mset_dispatched[OF ok, of BELOW_LIGHTMAP] by (simp only: b)
  have 2: "mset (map fst (dispatched (render T c ABOVE_LIGHTMAP)))
        = filter_mset (\<lambda>r. layer r > T) (mset (m_requests c))"
    using mset_dispatched[OF ok, of ABOVE_LIGHTMAP] by (simp only: a)
  have 3: "mset (map fst (dispatched (render T c NO_FILTER))) = mset (m_requests c)"
    using mset_dispatched[OF ok, of NO_FILTER] by (simp add: n)
  have 4: "r \<notin> fst ` set (dispatched (render T c BELOW_LIGHTMAP)) \<and>
      r \<notin> fst ` set (dispatched (render T c ABOVE_LIGHTMAP))" if "layer r = T" for r
  proof -
    from that have "\<not> survives T BELOW_LIGHTMAP r" "\<not> survives T ABOVE_LIGHTMAP r"
      by (simp_all add: survives_def)
    then show ?thesis by (simp add: not_dispatched)
  qed
  have 5: "r \<in> fst ` set (dispatched (render T c NO_FILTER))" if "r \<in> set (m_requests c)" for r
  proof -
    from 3 have "set (map fst (dispatched (render T c NO_FILTER))) = set (m_requests c)"
      by (rule mset_eq_setD)
    with that show ?thesis by simp
  qed
  from 1 2 3 4 5 show ?thesis by blast
qed

theorem render_filter_partition_witness:
  "perform_all 4 (Canvas_new NORMAL) ex_frame_calls = Inr ex_frame \<and>
   m_requests (Canvas_new NORMAL) = [] \<and>
   list_all font_given (map snd ex_frame_calls) \<and>
   map layer (m_requests ex_frame)
     = [451, 449, 450, 500, 450, 0, 449, 451, 450, 10, 450, 1000] \<and>
   mset (map fst (dispatched (render 450 ex_frame BELOW_LIGHTMAP)))
     = filter_mset (\<lambda>r. layer r < 450) (mset (m_requests ex_frame)) \<and>
   mset (map fst (dispatched (render 450 ex_frame ABOVE_LIGHTMAP)))
     = filter_mset (\<lambda>r. layer r > 450) (mset (m_requests ex_frame)) \<and>
   mset (map fst (dispatched (render 450 ex_frame NO_FILTER))) = mset (m_requests ex_frame) \<and>
   map layer (map fst (dispatched (render 450 ex_frame BELOW_LIGHTMAP))) = [0, 10, 449, 449] \<and>
   map type (map fst (dispatched (render 450 ex_frame BELOW_LIGHTMAP)))
     = [GRADIENT, INVERSEELLIPSE, TEXTURE, FILLRECT] \<and>
   map layer (map fst (dispatched (render 450 ex_frame ABOVE_LIGHTMAP)))
     = [451, 451, 500, 1000] \<and>
   map type (map fst (dispatched (render 450 ex_frame ABOVE_LIGHTMAP)))
     = [TEXTURE, FILLRECT, TEXT, TRIANGLE] \<and>
   length (dispatched (render 450 ex_frame NO_FILTER)) = 12"
proof -
  have h1: "perform_all 4 (Canvas_new NORMAL) ex_frame_calls = Inr ex_frame"
    by (simp add: frame_defs ex_defs draw_defs geom_defs)
  have h2: "m_requests (Canvas_new NORMAL) = []" by (simp add: Canvas_new_def)
  have h3: "list_all font_given (map snd ex_frame_calls)"
    by (simp add: ex_frame_calls_def)
  note th = render_filter_partition[OF h1 h2 h3, of 450]
  have l0: "map layer (m_requests ex_frame)
     = [451, 449, 450, 500, 450, 0, 449, 451, 450, 10, 450, 1000]"
    by (simp add: frame_defs ex_defs draw_defs geom_defs)
  have bl: "map layer (map fst (dispatched (render 450 ex_frame BELOW_LIGHTMAP)))
      = [0, 10, 449, 449]"
    by (simp add: frame_defs ex_defs draw_defs geom_defs render_defs Let_def)
  have bt: "map type (map fst (dispatched (render 450 ex_frame BELOW_LIGHTMAP)))
      = [GRADIENT, INVERSEELLIPSE, TEXTURE, FILLRECT]"
    by (simp add: frame_defs ex_defs draw_defs geom_defs render_defs Let_def)
  have al: "map layer (map fst (dispatched (render 450 ex_frame ABOVE_LIGHTMAP)))
      = [451, 451, 500, 1000]"
    by (simp add: frame_defs ex_defs draw_defs geom_defs render_defs Let_def)
  have at: "map type (map fst (dispatched (render 450 ex_frame ABOVE_LIGHTMAP)))
      = [TEXTURE, FILLRECT, TEXT, TRIANGLE]"
    by (simp add: frame_defs ex_defs draw_defs geom_defs render_defs Let_def)
  from th have "mset (map fst (dispatched (render 450 ex_frame NO_FILTER)))
      = mset (m_requests ex_frame)"
    by blast
  then have "length (map fst (dispatched (render 450 ex_frame NO_FILTER)))
      = length (m_requests ex_frame)"
    by (rule mset_eq_length)
  also have "\<dots> = length (map layer (m_requests ex_frame))" by simp
  also have "\<dots> = 12" by (simp only: l0) simp
  finally have n: "length (dispatched (render 450 ex_frame NO_FILTER)) = 12" by simp
  from th h1 h2 h3 l0 bl bt al at n show ?thesis by blast
qed

subsection \<open>C7: render keeps the buffer\<close>

lemma sort_key_twice: "sort_key layer (sort_key layer xs) = sort_key layer xs"
  by (rule sort_key_id_if_sorted) (rule sorted_sort_key)

text \<open>
  C7. After \<open>render\<close> the buffer holds exactly the requests it held before
  (the sort reorders them; the loop removes none, whatever the filter), and a second
  \<open>render\<close> with another filter dispatches what it would have dispatched from the
  original buffer.
\<close>

theorem render_keeps_buffer:
  "mset (m_requests (canvas_after (render T c f))) = mset (m_requests c) \<and>
   m_target (canvas_after (render T c f)) = m_target c \<and>
   canvas_after (render T c f) = canvas_after (render T c f') \<and>
   canvas_after (render T (canvas_after (render T c f)) f') = canvas_after (render T c f) \<and>
   dispatched (render T (canvas_after (render T c f)) f') = dispatched (render T c f') \<and>
   failure (render T (canvas_after (render T c f)) f') = failure (render T c f')"
  by (simp add: canvas_after_render dispatched_render failure_render sort_key_twice)

theorem render_keeps_buffer_witness:
  "mset (m_requests (canvas_after (render 450 ex_boundary BELOW_LIGHTMAP)))
     = mset (m_requests ex_boundary) \<and>
   map layer (m_requests (canvas_after (render 450 ex_boundary BELOW_LIGHTMAP)))
     = [449, 450, 451] \<and>
   map (layer \<circ> fst) (dispatched (render 450 ex_boundary BELOW_LIGHTMAP)) = [449] \<and>
   dispatched (render 450 (canvas_after (render 450 ex_boundary BELOW_LIGHTMAP)) ABOVE_LIGHTMAP)
     = dispatched (render 450 ex_boundary ABOVE_LIGHTMAP) \<and>
   map (layer \<circ> fst)
     (dispatched (render 450 (canvas_after (render 450 ex_boundary BELOW_LIGHTMAP))
        ABOVE_LIGHTMAP)) = [451]"
proof -
  have a: "map layer (m_requests (canvas_after (render 450 ex_boundary BELOW_LIGHTMAP)))
     = [449, 450, 451]"
    by (simp add: ex_boundary_def ex_defs draw_defs geom_defs render_defs Let_def)
  have b: "map (layer \<circ> fst) (dispatched (render 450 ex_boundary BELOW_LIGHTMAP)) = [449]"
    by (simp add: ex_boundary_def ex_defs draw_defs geom_defs render_defs Let_def)
  have d: "map (layer \<circ> fst) (dispatched (render 450 ex_boundary ABOVE_LIGHTMAP)) = [451]"
    by (simp add: ex_boundary_def ex_defs draw_defs geom_defs render_defs Let_def)
  note k = render_keeps_buffer[of 450 ex_boundary BELOW_LIGHTMAP ABOVE_LIGHTMAP]
  from k have e: "dispatched (render 450 (canvas_after (render 450 ex_boundary BELOW_LIGHTMAP))
      ABOVE_LIGHTMAP) = dispatched (render 450 ex_boundary ABOVE_LIGHTMAP)"
    by blast
  from k have m: "mset (m_requests (canvas_after (render 450 ex_boundary BELOW_LIGHTMAP)))
     = mset (m_requests ex_boundary)"
    by blast
  from d e have g: "map (layer \<circ> fst)
     (dispatched (render 450 (canvas_after (render 450 ex_boundary BELOW_LIGHTMAP))
        ABOVE_LIGHTMAP)) = [451]"
    by (simp only:)
  from m a b e g show ?thesis by blast
qed

subsection \<open>C8: clear\<close>

lemma destructed_requests_append:
  "destructed_requests (xs @ ys) = destructed_requests xs @ destructed_requests ys"
  by (induction xs rule: destructed_requests.induct) simp_all

lemma destructed_payloads_append:
  "destructed_payloads (xs @ ys) = destructed_payloads xs @ destructed_payloads ys"
  by (induction xs rule: destructed_payloads.induct) simp_all

lemma destructed_requests_clear:
  "destructed_requests (concat (map destruct rs)) = rs"
  by (induction rs)
     (auto simp: destructed_requests_append destruct_def split: option.splits)

lemma destructed_payloads_clear:
  "destructed_payloads (concat (map destruct rs))
     = map the (filter (\<lambda>d. d \<noteq> None) (map request_data rs))"
  by (induction rs)
     (auto simp: destructed_payloads_append destruct_def split: option.splits)

text \<open>
  C8. \<open>clear\<close> empties the buffer and runs the destructor of each buffered request
  once, and of each payload that is present once; a second \<open>clear\<close> changes
  nothing and runs no destructor, and so does \<open>clear\<close> on an empty buffer.
\<close>

theorem clear_idempotent:
  "clear (fst (clear c)) = (fst (clear c), []) \<and>
   m_requests (fst (clear c)) = [] \<and>
   m_target (fst (clear c)) = m_target c \<and>
   snd (clear c) @ snd (clear (fst (clear c))) = snd (clear c) \<and>
   destructed_requests (snd (clear c)) = m_requests c \<and>
   destructed_payloads (snd (clear c))
     = map the (filter (\<lambda>d. d \<noteq> None) (map request_data (m_requests c))) \<and>
   (m_requests c = [] \<longrightarrow> clear c = (c, []))"
  by (simp add: clear_def destructed_requests_clear destructed_payloads_clear)

theorem clear_idempotent_witness:
  "m_requests (Canvas_new NORMAL) = [] \<and>
   clear (Canvas_new NORMAL) = (Canvas_new NORMAL, []) \<and>
   length (m_requests ex_scene) = 3 \<and>
   length (snd (clear ex_scene)) = 6 \<and>
   clear (fst (clear ex_scene)) = (fst (clear ex_scene), []) \<and>
   destructed_requests (snd (clear ex_scene)) = m_requests ex_scene"
proof -
  have e: "m_requests (Canvas_new NORMAL) = []" by (simp add: Canvas_new_def)
  have n: "length (m_requests ex_scene) = 3" by (simp add: ex_defs draw_defs geom_defs)
  have l: "length (snd (clear ex_scene)) = 6"
    by (simp add: clear_def destruct_def ex_defs draw_defs geom_defs)
  from clear_idempotent[of "Canvas_new NORMAL"] e
  have "clear (Canvas_new NORMAL) = (Canvas_new NORMAL, [])" by blast
  with clear_idempotent[of ex_scene] e n l show ?thesis by blast
qed

subsection \<open>C9: light queries\<close>





subsection \<open>C6: apply_translate\<close>

text \<open>
  C6. \<open>apply_translate\<close> of a position is the context transform applied to it plus
  the top-left corner of the viewport, for any transform and viewport.
\<close>

theorem apply_translate_composition:
  "apply_translate ctx p =
     vector_plus (apply (transform ctx) p)
       (Vector (real_of_int (left (get_viewport ctx)))
               (real_of_int (top_rect (get_viewport ctx)))) \<and>
   vx (apply_translate ctx p)
     = vx (apply (transform ctx) p) + real_of_int (left (get_viewport ctx)) \<and>
   vy (apply_translate ctx p)
     = vy (apply (transform ctx) p) + real_of_int (top_rect (get_viewport ctx))"
  by (simp add: apply_translate_def vector_plus_def)

theorem apply_translate_composition_witness:
  "apply_translate ex_context (Vector 100 100) = Vector 95 87 \<and>
   apply (transform ex_context) (Vector 100 100) = Vector 90 80 \<and>
   left (get_viewport ex_context) = 5 \<and> top_rect (get_viewport ex_context) = 7"
proof -
  have a: "apply (transform ex_context) (Vector 100 100) = Vector 90 80"
    by (simp add: ex_context_def)
  have v: "left (get_viewport ex_context) = 5" "top_rect (get_viewport ex_context) = 7"
    by (simp_all add: ex_context_def)
  have "apply_translate ex_context (Vector 100 100) = Vector 95 87"
    using apply_translate_composition[of ex_context "Vector 100 100"] a v
    by (simp add: vector_plus_def)
  with a v show ?thesis by simp
qed

subsection \<open>C10: draw_text and its font\<close>

lemma draw_text_requests:
  "m_requests (draw_text ctx c fnt txt p al l col) =
   m_requests c @
     [DrawingRequest_new
        \<lparr>type := TEXT, layer := l,
         drawing_effect := Transform.drawing_effect (transform ctx),
         alpha := Transform.alpha (transform ctx), color := col,
         request_data := Some (TextRequest (apply_translate ctx p) fnt txt al)\<rparr>]"
  by (simp add: draw_text_def push_back_def Let_def)

lemma draw_text_target: "m_target (draw_text ctx c fnt txt p al l col) = m_target c"
  by (simp add: draw_text_def push_back_def Let_def)

lemma dispatch_text_font:
  "type r = TEXT \<Longrightarrow> request_data r = Some (TextRequest tp fnt str al) \<Longrightarrow>
   dispatch painter r =
     (case fnt of
        None \<Rightarrow> Inl NullPointerDereference
      | Some fo \<Rightarrow> Inr (Font_draw fo painter str tp al (drawing_effect r) (color r) (alpha r)))"
  by (simp add: dispatch_def dispatch_text_def)

lemma render_append_failure:
  assumes ok: "failure (render T c f) = None"
    and c': "m_requests c' = m_requests c @ [r]" "m_target c' = m_target c"
    and surv: "survives T f r"
    and bad: "dispatch (select_painter (m_target c)) r = Inl e"
  shows "failure (render T c' f) = Some e"
proof -
  let ?p = "select_painter (m_target c)"
  from ok have good: "\<forall>x \<in> set (m_requests c). survives T f x \<longrightarrow> (\<exists>k. dispatch ?p x = Inr k)"
    by (simp add: failure_render render_loop_success_iff)
  have "failure (render T c' f) \<noteq> None"
    using surv bad c' by (auto simp: failure_render render_loop_success_iff)
  then obtain e' where e': "failure (render T c' f) = Some e'" by blast
  then obtain x where x: "x \<in> set (m_requests c')" "survives T f x" "dispatch ?p x = Inl e'"
    using render_loop_failure[of T f ?p "sort_key layer (m_requests c')" e'] c'
    by (auto simp: failure_render)
  have "x = r"
  proof (rule ccontr)
    assume "x \<noteq> r"
    with x(1) c' have "x \<in> set (m_requests c)" by simp
    with good x(2,3) show False by auto
  qed
  with x(3) bad have "e' = e" by simp
  with e' show ?thesis by simp
qed

lemma render_append_success:
  assumes ok: "failure (render T c f) = None"
    and c': "m_requests c' = m_requests c @ [r]" "m_target c' = m_target c"
    and good: "dispatch (select_painter (m_target c)) r = Inr k"
  shows "failure (render T c' f) = None"
  using assms by (auto simp: failure_render render_loop_success_iff)

text \<open>
  C10. \<open>draw_text\<close> has no failing branch: for every font, null included, it
  appends exactly one request of type \<^verbatim>\<open>TEXT\<close> whose payload stores the font
  as given. The font is dereferenced by the dispatch of that request: after a buffer
  that renders completely, a text request with a null font that survives the filter
  makes \<open>render\<close> fail with a null dereference, and one with a font does not.
\<close>

theorem draw_text_any_font:
  "length (m_requests (draw_text ctx c fnt str p al l col)) = Suc (length (m_requests c)) \<and>
   butlast (m_requests (draw_text ctx c fnt str p al l col)) = m_requests c \<and>
   type (last (m_requests (draw_text ctx c fnt str p al l col))) = TEXT \<and>
   request_data (last (m_requests (draw_text ctx c fnt str p al l col)))
     = Some (TextRequest (apply_translate ctx p) fnt str al) \<and>
   (failure (render T c f) = None \<and>
    survives T f (last (m_requests (draw_text ctx c None str p al l col))) \<longrightarrow>
      failure (render T (draw_text ctx c None str p al l col) f)
        = Some NullPointerDereference) \<and>
   (failure (render T c f) = None \<longrightarrow>
      failure (render T (draw_text ctx c (Some fo) str p al l col) f) = None)"
proof (intro conjI impI)
  let ?r = "\<lambda>fnt'. DrawingRequest_new
        \<lparr>type := TEXT, layer := l,
         drawing_effect := Transform.drawing_effect (transform ctx),
         alpha := Transform.alpha (transform ctx), color := col,
         request_data := Some (TextRequest (apply_translate ctx p) fnt' str al)\<rparr>"
  let ?p = "select_painter (m_target c)"
  have rq: "m_requests (draw_text ctx c fnt' str p al l col) = m_requests c @ [?r fnt']" for fnt'
    by (rule draw_text_requests)
  have tg: "m_target (draw_text ctx c fnt' str p al l col) = m_target c" for fnt'
    by (rule draw_text_target)
  have d1: "dispatch ?p (?r None) = Inl NullPointerDereference"
    by (simp add: dispatch_text_font[where tp = "apply_translate ctx p" and fnt = None
          and str = str and al = al])
  have d2: "\<exists>k. dispatch ?p (?r (Some fo)) = Inr k"
    by (simp add: dispatch_text_font[where tp = "apply_translate ctx p" and fnt = "Some fo"
          and str = str and al = al])
  {
    assume a: "failure (render T c f) = None \<and>
      survives T f (last (m_requests (draw_text ctx c None str p al l col)))"
    then have ok: "failure (render T c f) = None" by (rule conjunct1)
    from a have "survives T f (last (m_requests (draw_text ctx c None str p al l col)))"
      by (rule conjunct2)
    then have s: "survives T f (?r None)" by (simp only: rq last_snoc)
    show "failure (render T (draw_text ctx c None str p al l col) f)
        = Some NullPointerDereference"
      by (rule render_append_failure[OF ok rq tg s d1])
  }
  {
    assume ok: "failure (render T c f) = None"
    from d2 obtain k where k: "dispatch ?p (?r (Some fo)) = Inr k" by blast
    show "failure (render T (draw_text ctx c (Some fo) str p al l col) f) = None"
      by (rule render_append_success[OF ok rq tg k])
  }
qed (simp_all add: draw_text_requests)

theorem draw_text_any_font_witness:
  "failure (render 450 ex_scene NO_FILTER) = None \<and>
   survives 450 NO_FILTER
     (last (m_requests
        (draw_text ex_context ex_scene None ''hi'' (Vector 1 2) ALIGN_LEFT 3 ex_color))) \<and>
   length (m_requests
     (draw_text ex_context ex_scene None ''hi'' (Vector 1 2) ALIGN_LEFT 3 ex_color)) = 4 \<and>
   request_data (last (m_requests
     (draw_text ex_context ex_scene None ''hi'' (Vector 1 2) ALIGN_LEFT 3 ex_color)))
     = Some (TextRequest (Vector (-4) (-11)) None ''hi'' ALIGN_LEFT) \<and>
   failure (render 450
     (draw_text ex_context ex_scene None ''hi'' (Vector 1 2) ALIGN_LEFT 3 ex_color) NO_FILTER)
     = Some NullPointerDereference \<and>
   failure (render 450
     (draw_text ex_context ex_scene (Some 9) ''hi'' (Vector 1 2) ALIGN_LEFT 3 ex_color)
     NO_FILTER) = None"
proof -
  let ?c = "draw_text ex_context ex_scene None ''hi'' (Vector 1 2) ALIGN_LEFT 3 ex_color"
  have ok: "failure (render 450 ex_scene NO_FILTER) = None"
    by (simp add: ex_defs draw_defs geom_defs render_defs Let_def)
  have s: "survives 450 NO_FILTER (last (m_requests ?c))"
    by (simp add: survives_def)
  have n: "length (m_requests ex_scene) = 3" by (simp add: ex_defs draw_defs geom_defs)
  have t: "apply_translate ex_context (Vector 1 2) = Vector (-4) (-11)"
    by (simp add: ex_context_def geom_defs)
  note th = draw_text_any_font[of ex_context ex_scene None "''hi''" "Vector 1 2" ALIGN_LEFT 3
      ex_color 450 NO_FILTER 9]
  from th n have a: "length (m_requests ?c) = 4" by simp
  from th t have b: "request_data (last (m_requests ?c))
     = Some (TextRequest (Vector (-4) (-11)) None ''hi'' ALIGN_LEFT)"
    by (simp only:)
  from th ok s have d: "failure (render 450 ?c NO_FILTER) = Some NullPointerDereference"
    by blast
  from th ok have e: "failure (render 450
     (draw_text ex_context ex_scene (Some 9) ''hi'' (Vector 1 2) ALIGN_LEFT 3 ex_color)
     NO_FILTER) = None"
    by blast
  from ok s a b d e show ?thesis by blast
qed

subsection \<open>C5: alpha of filled shapes\<close>

text \<open>
  The alpha field of the request itself is the context's alpha, not the product: for a
  context alpha and a colour alpha of one half it is one half, not one quarter.
\<close>

theorem request_alpha_counterexample:
  "\<not> (DrawingRequest.alpha (last (m_requests
          (draw_filled_rect_pos_size ex_context (Canvas_new NORMAL) (Vector 0 0) (Vector 8 8)
             ex_color 10)))
        = Transform.alpha (transform ex_context) * Color.alpha ex_color)"
  by (simp add: ex_defs draw_defs geom_defs)

text \<open>
  C5 (amended). For every filled-shape draw call (filled rectangle in its three forms,
  inverse ellipse, line, triangle), the colour stored in the payload of the enqueued
  request has the alpha of the context multiplied by the alpha of the colour argument;
  the alpha field of the request is the alpha of the context alone.
\<close>

theorem filled_shape_alpha:
  "shape_color call = Some col \<Longrightarrow>
   (\<exists>c'. perform H ctx c call = Inr c' \<and>
      m_requests c' = m_requests c @ [last (m_requests c')] \<and>
      payload_alpha (last (m_requests c'))
        = Some (Transform.alpha (transform ctx) * Color.alpha col) \<and>
      DrawingRequest.alpha (last (m_requests c')) = Transform.alpha (transform ctx))"
  by (cases call) (simp_all add: draw_defs Let_def mult.commute)

theorem filled_shape_alpha_witness:
  "shape_color (Draw_line (Vector 0 0) (Vector 50 50) ex_color 10) = Some ex_color \<and>
   payload_alpha (last (m_requests
     (draw_line ex_context (Canvas_new NORMAL) (Vector 0 0) (Vector 50 50) ex_color 10)))
     = Some (1/4) \<and>
   DrawingRequest.alpha (last (m_requests
     (draw_line ex_context (Canvas_new NORMAL) (Vector 0 0) (Vector 50 50) ex_color 10)))
     = 1/2"
proof -
  have h: "shape_color (Draw_line (Vector 0 0) (Vector 50 50) ex_color 10) = Some ex_color"
    by simp
  have a: "Transform.alpha (transform ex_context) = 1/2" "Color.alpha ex_color = 1/2"
    by (simp_all add: ex_defs)
  from filled_shape_alpha[OF h, of 4 ex_context "Canvas_new NORMAL"]
  obtain c' where r:
    "draw_line ex_context (Canvas_new NORMAL) (Vector 0 0) (Vector 50 50) ex_color 10 = c'"
    "payload_alpha (last (m_requests c'))
       = Some (Transform.alpha (transform ex_context) * Color.alpha ex_color)"
    "DrawingRequest.alpha (last (m_requests c')) = Transform.alpha (transform ex_context)"
    by auto
  from r(2,3) have "payload_alpha (last (m_requests c')) = Some (1/4)"
    "DrawingRequest.alpha (last (m_requests c')) = 1/2"
    by (simp_all only: a) simp_all
  with r(1) h show ?thesis by blast
qed

subsection \<open>C4: culling of texture draws\<close>

text \<open>
  For rectangles whose corners are in order, \<open>outside\<close> says that the two
  rectangles have no point in common.
\<close>

lemma outside_iff_no_common_point:
  assumes "well_formed d" "well_formed clip"
  shows "outside d clip \<longleftrightarrow> \<not> (\<exists>p. contains d p \<and> contains clip p)"
proof
  assume "outside d clip"
  then show "\<not> (\<exists>p. contains d p \<and> contains clip p)"
    by (auto simp: outside_def contains_def)
next
  assume no: "\<not> (\<exists>p. contains d p \<and> contains clip p)"
  show "outside d clip"
  proof (rule ccontr)
    assume "\<not> outside d clip"
    then have "contains d (Vector (max (get_left d) (get_left clip)) (max (get_top d) (get_top clip)))
      \<and> contains clip (Vector (max (get_left d) (get_left clip)) (max (get_top d) (get_top clip)))"
      using assms by (auto simp: outside_def contains_def well_formed_def)
    with no show False by blast
  qed
qed

text \<open>
  \<open>draw_surface_part\<close> has no cull: a destination rectangle strictly outside the
  clip rectangle still enqueues a request.
\<close>

theorem texture_cull_counterexample:
  "\<not> (outside ex_far (get_cliprect ex_context) \<longrightarrow>
        draw_surface_part 4 ex_context (Canvas_new NORMAL) (Some ex_surface) ex_src ex_far 1
          = Inr (Canvas_new NORMAL))"
  by (simp add: ex_far_def ex_src_def ex_defs draw_defs geom_defs outside_def Let_def)

text \<open>
  C4 (amended). \<open>draw_surface\<close> (in both forms) with a non-null surface enqueues
  nothing when the rectangle of the surface at the given position, its far corner
  computed in float arithmetic, lies strictly outside the clip rectangle, and exactly
  one request otherwise; \<open>draw_surface_part\<close> with a non-null surface always
  enqueues exactly one request.
\<close>

theorem texture_cull:
  "(outside (surface_rect position s) (get_cliprect ctx) \<longrightarrow>
      draw_surface H ctx c (Some s) position a col b l = Inr c \<and>
      draw_surface_3 H ctx c (Some s) position l = Inr c) \<and>
   (\<not> outside (surface_rect position s) (get_cliprect ctx) \<longrightarrow>
      (\<exists>c'. draw_surface H ctx c (Some s) position a col b l = Inr c' \<and>
         m_requests c' = m_requests c @ [last (m_requests c')] \<and>
         type (last (m_requests c')) = TEXTURE) \<and>
      (\<exists>c'. draw_surface_3 H ctx c (Some s) position l = Inr c' \<and>
         m_requests c' = m_requests c @ [last (m_requests c')] \<and>
         type (last (m_requests c')) = TEXTURE)) \<and>
   (\<exists>c'. draw_surface_part H ctx c (Some s) src dst l = Inr c' \<and>
      m_requests c' = m_requests c @ [last (m_requests c')] \<and>
      type (last (m_requests c')) = TEXTURE)"
  by (simp add: draw_surface_def draw_surface_3_def draw_surface_part_def outside_def
        surface_rect_def Let_def push_back_def get_left_def get_right_def get_top_def
        get_bottom_def Rectf_pos_size_def Sizef_of_Size_def)

text \<open>
  The witness: a surface left of the clip rectangle is discarded; one that touches its
  left edge is drawn; and a surface whose exact right edge 1000 - 1/32768 is left
  of a clip rectangle starting at 1000 is drawn too, because the float sum of the test
  is 1000.
\<close>

theorem texture_cull_witness:
  "outside (surface_rect (Vector (-100) 0) ex_surface) (get_cliprect ex_context) \<and>
   draw_surface 4 ex_context (Canvas_new NORMAL) (Some ex_surface) (Vector (-100) 0) 0
     ex_color Blend_default 5 = Inr (Canvas_new NORMAL) \<and>
   \<not> outside (surface_rect (Vector (-32) 0) ex_surface) (get_cliprect ex_context) \<and>
   length (m_requests (projr
     (draw_surface 4 ex_context (Canvas_new NORMAL) (Some ex_surface) (Vector (-32) 0) 0
        ex_color Blend_default 5))) = 1 \<and>
   length (m_requests (projr
     (draw_surface_part 4 ex_context (Canvas_new NORMAL) (Some ex_surface) ex_src ex_far 5)))
     = 1 \<and>
   get_left (get_cliprect ex_clip_context) = 1000 \<and>
   (488 - 1 / 32768) + real_of_int (Surface.get_width ex_wide) < 1000 \<and>
   get_right (surface_rect (Vector (488 - 1 / 32768) 0) ex_wide) = 1000 \<and>
   \<not> outside (surface_rect (Vector (488 - 1 / 32768) 0) ex_wide)
       (get_cliprect ex_clip_context) \<and>
   length (m_requests (projr
     (draw_surface 4 ex_clip_context (Canvas_new NORMAL) (Some ex_wide)
        (Vector (488 - 1 / 32768) 0) 0 ex_color Blend_default 5))) = 1"
proof -
  have o: "outside (surface_rect (Vector (-100) 0) ex_surface) (get_cliprect ex_context)"
    by (simp add: outside_def surface_rect_def ex_defs geom_defs)
  have i: "\<not> outside (surface_rect (Vector (-32) 0) ex_surface) (get_cliprect ex_context)"
    by (simp add: outside_def surface_rect_def ex_defs geom_defs)
  have cl: "get_left (get_cliprect ex_clip_context) = 1000"
    by (simp add: ex_clip_context_def ex_defs geom_defs)
  have ex: "(488 - 1 / 32768) + real_of_int (Surface.get_width ex_wide) < 1000"
    by (simp add: ex_wide_def)
  have r: "get_right (surface_rect (Vector (488 - 1 / 32768) 0) ex_wide) = 1000"
    using float_add_rounds_up by (simp add: surface_rect_def get_right_def ex_wide_def)
  have t: "\<not> outside (surface_rect (Vector (488 - 1 / 32768) 0) ex_wide)
       (get_cliprect ex_clip_context)"
    using float_add_rounds_up
    by (simp add: outside_def surface_rect_def ex_wide_def ex_clip_context_def ex_context_def
          Rectf_coords_def get_left_def get_right_def get_top_def get_bottom_def
          float_of_int_def float_add_def to_float_int)
  have e: "m_requests (Canvas_new NORMAL) = []" by (simp add: Canvas_new_def)
  from o texture_cull[where position = "Vector (-100) 0" and s = ex_surface
      and ctx = ex_context and H = 4 and c = "Canvas_new NORMAL" and a = 0 and col = ex_color
      and b = Blend_default and l = 5]
  have a: "draw_surface 4 ex_context (Canvas_new NORMAL) (Some ex_surface) (Vector (-100) 0) 0
     ex_color Blend_default 5 = Inr (Canvas_new NORMAL)"
    by blast
  from i texture_cull[where position = "Vector (-32) 0" and s = ex_surface
      and ctx = ex_context and H = 4 and c = "Canvas_new NORMAL" and a = 0 and col = ex_color
      and b = Blend_default and l = 5 and src = ex_src and dst = ex_far]
  obtain c1 c2 where
    c1: "draw_surface 4 ex_context (Canvas_new NORMAL) (Some ex_surface) (Vector (-32) 0) 0
      ex_color Blend_default 5 = Inr c1"
      "m_requests c1 = m_requests (Canvas_new NORMAL) @ [last (m_requests c1)]" and
    c2: "draw_surface_part 4 ex_context (Canvas_new NORMAL) (Some ex_surface) ex_src ex_far 5
      = Inr c2"
      "m_requests c2 = m_requests (Canvas_new NORMAL) @ [last (m_requests c2)]"
    by blast
  from t texture_cull[where position = "Vector (488 - 1 / 32768) 0" and s = ex_wide
      and ctx = ex_clip_context and H = 4 and c = "Canvas_new NORMAL" and a = 0
      and col = ex_color and b = Blend_default and l = 5]
  obtain c3 where
    c3: "draw_surface 4 ex_clip_context (Canvas_new NORMAL) (Some ex_wide)
        (Vector (488 - 1 / 32768) 0) 0 ex_color Blend_default 5 = Inr c3"
      "m_requests c3 = m_requests (Canvas_new NORMAL) @ [last (m_requests c3)]"
    by blast
  from c1(2) e have "length (m_requests c1) = 1"
    by (metis append_Nil length_Cons list.size(3) One_nat_def)
  with c1(1) have b: "length (m_requests (projr
     (draw_surface 4 ex_context (Canvas_new NORMAL) (Some ex_surface) (Vector (-32) 0) 0
        ex_color Blend_default 5))) = 1"
    by simp
  from c2(2) e have "length (m_requests c2) = 1"
    by (metis append_Nil length_Cons list.size(3) One_nat_def)
  with c2(1) have d: "length (m_requests (projr
     (draw_surface_part 4 ex_context (Canvas_new NORMAL) (Some ex_surface) ex_src ex_far 5)))
     = 1"
    by simp
  from c3(2) e have "length (m_requests c3) = 1"
    by (metis append_Nil length_Cons list.size(3) One_nat_def)
  with c3(1) have g: "length (m_requests (projr
     (draw_surface 4 ex_clip_context (Canvas_new NORMAL) (Some ex_wide)
        (Vector (488 - 1 / 32768) 0) 0 ex_color Blend_default 5))) = 1"
    by simp
  from o a i b d cl ex r t g show ?thesis by blast
qed

subsection \<open>C2: the payload of a partial texture draw\<close>

text \<open>
  What \<open>draw_surface_part\<close> stores, for any arguments: the translated position of
  the destination goes into \<open>srcrect\<close>, with the size of the source; \<open>dstrect\<close> is
  the destination as given. \<open>draw_surface\<close> stores the translated position in
  \<open>dstrect\<close> and leaves \<open>srcrect\<close> untransformed.
\<close>

lemma draw_surface_part_stores:
  "\<exists>c'. draw_surface_part H ctx c (Some s) src dst l = Inr c' \<and>
      request_data (last (m_requests c'))
        = Some (TextureRequest (Rectf_pos_size (apply_translate ctx (p1 dst)) (get_size src))
                  dst (get_texture s))"
  by (simp add: draw_surface_part_def push_back_def Let_def)

lemma draw_surface_stores:
  "\<not> outside (surface_rect position s) (get_cliprect ctx) \<Longrightarrow>
   \<exists>c'. draw_surface H ctx c (Some s) position a col b l = Inr c' \<and>
      request_data (last (m_requests c'))
        = Some (TextureRequest
                  (Rectf_coords 0 0 (real_of_int (Surface.get_width s))
                     (real_of_int (Surface.get_height s)))
                  (Rectf_pos_size (apply_translate ctx position)
                     (Sizef_of_Size (Size (Surface.get_width s) (Surface.get_height s))))
                  (get_texture s))"
  by (simp add: draw_surface_def outside_def surface_rect_def Let_def push_back_def
        get_left_def get_right_def get_top_def get_bottom_def Rectf_pos_size_def
        Sizef_of_Size_def)

text \<open>
  C2. With a translation of \<open>(10, 20)\<close> and the viewport at \<open>(5, 7)\<close>, a partial
  draw from the source \<open>(0, 0, 16, 16)\<close> to the destination \<open>(100, 100, 116, 116)\<close>
  enqueues a payload whose \<open>srcrect\<close> is \<open>(95, 87, 111, 103)\<close> and whose
  \<open>dstrect\<close> is \<open>(100, 100, 116, 116)\<close>: the position of \<open>dstrect\<close> is not the
  translated position \<open>(95, 87)\<close>, and \<open>srcrect\<close> is not the source given.
\<close>

theorem draw_surface_part_payload:
  "(\<exists>c'. ex_part = Inr c' \<and>
      map request_data (m_requests c')
        = [Some (TextureRequest (Rectf_coords 95 87 111 103) (Rectf_coords 100 100 116 116) 1)]) \<and>
   ex_src = Rectf_coords 0 0 16 16 \<and>
   ex_dst = Rectf_coords 100 100 116 116 \<and>
   apply_translate ex_context (p1 ex_dst) = Vector 95 87"
  by (simp add: ex_part_def ex_src_def ex_dst_def ex_defs draw_defs geom_defs Let_def)

end
